theory Spec2Isabelle
  imports Complex_Main "HOL-Library.AList" "HOL-Library.Multiset"
begin

section \<open>Numbers\<close>

text \<open>
  The source is TypeScript: every \<^verbatim>\<open>number\<close> is an IEEE double.  The development
  reads a \<^verbatim>\<open>number\<close> as a real, so rounding errors, NaN and the infinities are
  outside the model.  A \<^verbatim>\<open>number | null\<close> is a \<open>real option\<close>.  On reals the test
  \<^verbatim>\<open>Number.isFinite(value)\<close> always succeeds; the functions that start with it
  (\<^verbatim>\<open>clampScore\<close>, \<^verbatim>\<open>clamp01\<close>, \<^verbatim>\<open>clamp\<close>, \<^verbatim>\<open>safeNumber\<close>) keep their other
  branches.

  \<^verbatim>\<open>Math.round\<close> rounds to the nearest integer, a tie going up.
\<close>

definition Math_round :: "real \<Rightarrow> real" where
  "Math_round x = of_int \<lfloor>x + 1 / 2\<rfloor>"

section \<open>Data model (types/session.ts, types/metrics.ts)\<close>

datatype SessionStatus = completed | dropout | rescheduled

datatype RescheduleInitiator = tutor | student

record SessionRecord =
  sessionId :: string
  tutorId :: string
  date :: string
  durationMinutes :: real
  rating :: "real option"
  status :: SessionStatus
  hasTechIssue :: bool
  isFirstSession :: bool
  rescheduleInitiator :: "RescheduleInitiator option"
  noShow :: bool

record AggregatedMetrics =
  avgRating :: "real option"
  dropoutRate :: real
  techIssueRate :: real
  rescheduleRate :: real
  sessionsCount :: real
  firstSessionAvgRating :: "real option"
  firstSessionDropoutRate :: real
  firstSessionCount :: real
  tutorInitiatedRescheduleRate :: real
  tutorInitiatedRescheduleCount :: real
  noShowRate :: real
  noShowCount :: real

datatype ScoreFormulaVersion = v1 | v2

section \<open>KPI aggregation (scripts/score\_tutors.ts, computeMetrics)\<close>

text \<open>The local counters of the loop in \<^verbatim>\<open>computeMetrics\<close>.\<close>

record Tally =
  ratingSum :: real
  ratingCount :: nat
  dropouts :: nat
  techIssues :: nat
  reschedules :: nat
  tutorInitiatedReschedules :: nat
  noShows :: nat
  firstSessionRatingSum :: real
  firstSessionRatingCount :: nat
  firstSessionDropouts :: nat
  firstSessions :: nat

definition tally0 :: Tally where
  "tally0 = \<lparr>ratingSum = 0, ratingCount = 0, dropouts = 0, techIssues = 0,
     reschedules = 0, tutorInitiatedReschedules = 0, noShows = 0,
     firstSessionRatingSum = 0, firstSessionRatingCount = 0,
     firstSessionDropouts = 0, firstSessions = 0\<rparr>"

text \<open>One pass of the loop body, its five statements in the order of the source.\<close>

definition tally_session :: "Tally \<Rightarrow> SessionRecord \<Rightarrow> Tally" where
  "tally_session t s =
    (let t1 = (case rating s of
                 Some r \<Rightarrow> t\<lparr>ratingSum := ratingSum t + r, ratingCount := ratingCount t + 1\<rparr>
               | None \<Rightarrow> t);
         t2 = (if status s = dropout then
                 (let u = t1\<lparr>dropouts := dropouts t1 + 1\<rparr>
                  in if isFirstSession s
                     then u\<lparr>firstSessionDropouts := firstSessionDropouts u + 1\<rparr> else u)
               else if status s = rescheduled then
                 (let u = t1\<lparr>reschedules := reschedules t1 + 1\<rparr>
                  in if rescheduleInitiator s = Some tutor
                     then u\<lparr>tutorInitiatedReschedules := tutorInitiatedReschedules u + 1\<rparr>
                     else u)
               else t1);
         t3 = (if hasTechIssue s then t2\<lparr>techIssues := techIssues t2 + 1\<rparr> else t2);
         t4 = (if noShow s then t3\<lparr>noShows := noShows t3 + 1\<rparr> else t3)
     in if isFirstSession s then
          (let u = t4\<lparr>firstSessions := firstSessions t4 + 1\<rparr>
           in case rating s of
                Some r \<Rightarrow> u\<lparr>firstSessionRatingSum := firstSessionRatingSum u + r,
                            firstSessionRatingCount := firstSessionRatingCount u + 1\<rparr>
              | None \<Rightarrow> u)
        else t4)"

definition computeMetrics :: "SessionRecord list \<Rightarrow> AggregatedMetrics" where
  "computeMetrics sessions =
    (if length sessions = 0 then
       \<lparr>avgRating = None, dropoutRate = 0, techIssueRate = 0, rescheduleRate = 0,
        sessionsCount = 0, firstSessionAvgRating = None, firstSessionDropoutRate = 0,
        firstSessionCount = 0, tutorInitiatedRescheduleRate = 0,
        tutorInitiatedRescheduleCount = 0, noShowRate = 0, noShowCount = 0\<rparr>
     else
       (let t = foldl tally_session tally0 sessions;
            total = length sessions
        in \<lparr>avgRating =
              (if ratingCount t > 0 then Some (ratingSum t / real (ratingCount t)) else None),
            dropoutRate = (if total > 0 then real (dropouts t) / real total else 0),
            techIssueRate = (if total > 0 then real (techIssues t) / real total else 0),
            rescheduleRate = (if total > 0 then real (reschedules t) / real total else 0),
            sessionsCount = real total,
            firstSessionAvgRating =
              (if firstSessionRatingCount t > 0
               then Some (firstSessionRatingSum t / real (firstSessionRatingCount t))
               else None),
            firstSessionDropoutRate =
              (if firstSessions t > 0
               then real (firstSessionDropouts t) / real (firstSessions t) else 0),
            firstSessionCount = real (firstSessions t),
            tutorInitiatedRescheduleRate =
              (if reschedules t > 0
               then real (tutorInitiatedReschedules t) / real (reschedules t) else 0),
            tutorInitiatedRescheduleCount = real (tutorInitiatedReschedules t),
            noShowRate = (if total > 0 then real (noShows t) / real total else 0),
            noShowCount = real (noShows t)\<rparr>))"

section \<open>Score formulas (computeScore, computeScoreV1, computeScoreV2, clampScore)\<close>

definition clampScore :: "real \<Rightarrow> real" where
  "clampScore v = (if v < 0 then 0 else if v > 100 then 100 else v)"

definition computeScoreV1 :: "AggregatedMetrics \<Rightarrow> real" where
  "computeScoreV1 metrics =
    (let ratingForPenalty = (case avgRating metrics of Some r \<Rightarrow> r | None \<Rightarrow> 5);
         rawScore = 100 - (dropoutRate metrics * 40 + techIssueRate metrics * 30 +
                           rescheduleRate metrics * 20 + (5 - ratingForPenalty) * 10)
     in clampScore (Math_round rawScore))"

definition computeScoreV2 :: "AggregatedMetrics \<Rightarrow> real" where
  "computeScoreV2 metrics =
    (let avgRating' = (case avgRating metrics of Some r \<Rightarrow> r | None \<Rightarrow> 5);
         firstSessionRating =
           (case firstSessionAvgRating metrics of
              Some r \<Rightarrow> r
            | None \<Rightarrow> (case avgRating metrics of Some r \<Rightarrow> r | None \<Rightarrow> 5));
         dropoutPenalty = dropoutRate metrics * 30;
         firstSessionDropoutPenalty =
           (if firstSessionCount metrics > 0 then 35 else 20) * firstSessionDropoutRate metrics;
         techPenalty = techIssueRate metrics * 18;
         reschedulePenalty = rescheduleRate metrics * 12;
         tutorReschedulePenalty = tutorInitiatedRescheduleRate metrics * 20;
         noShowPenalty = noShowRate metrics * 28;
         ratingPenalty = (5 - avgRating') * 12;
         firstSessionRatingPenalty = max 0 (4.5 - firstSessionRating) * 8;
         volumePenalty =
           (if sessionsCount metrics < 5 then 4 else if sessionsCount metrics < 10 then 2 else 0);
         penaltySum = dropoutPenalty + firstSessionDropoutPenalty + techPenalty +
           reschedulePenalty + tutorReschedulePenalty + noShowPenalty + ratingPenalty +
           firstSessionRatingPenalty + volumePenalty;
         rawScore = 100 - penaltySum
     in clampScore (Math_round rawScore))"

definition computeScore :: "AggregatedMetrics \<Rightarrow> ScoreFormulaVersion \<Rightarrow> real" where
  "computeScore metrics version =
    (if version = v1 then computeScoreV1 metrics else computeScoreV2 metrics)"

section \<open>Churn-risk heuristic (clamp01, computeChurnRisk)\<close>

definition clamp01 :: "real \<Rightarrow> real" where
  "clamp01 v = (if v < 0 then 0 else if v > 1 then 1 else v)"

definition computeChurnRisk :: "AggregatedMetrics \<Rightarrow> real \<Rightarrow> real list \<Rightarrow> real" where
  "computeChurnRisk metrics score trend =
    (let risk0 = dropoutRate metrics * 0.4 + noShowRate metrics * 0.3 +
                 tutorInitiatedRescheduleRate metrics * 0.2 +
                 firstSessionDropoutRate metrics * 0.1;
         risk1 = (case firstSessionAvgRating metrics of
                    Some r \<Rightarrow> if r < 3.0 then risk0 + 0.05 else risk0
                  | None \<Rightarrow> risk0);
         risk2 = (if score < 50 then risk1 + 0.12
                  else if score < 60 then risk1 + 0.08
                  else if score < 70 then risk1 + 0.04
                  else risk1);
         risk3 = (if length trend \<ge> 2 then
                    (let trendDelta = trend ! (length trend - 1) - trend ! 0
                     in if trendDelta < - 15 then risk2 + 0.07
                        else if trendDelta < - 8 then risk2 + 0.04
                        else if trendDelta > 5 then risk2 - 0.03
                        else risk2)
                  else risk2)
     in clamp01 risk3)"

section \<open>Trend builder (smoothTrend, buildTrendForTutor)\<close>

text \<open>
  \<^verbatim>\<open>trend.slice(start, end)\<close> is \<open>take (end - start) (drop start trend)\<close>, and
  \<^verbatim>\<open>reduce((acc, val) => acc + val, 0)\<close> is a left fold.  The loop over \<open>i\<close> pushes
  one value per index, which is a \<open>map\<close> over the indices.
\<close>

definition smoothTrend :: "real list \<Rightarrow> nat \<Rightarrow> real list" where
  "smoothTrend trend windowSize =
    (if length trend = 0 then []
     else if length trend = 1 then trend
     else
       (let halfWindow = windowSize div 2
        in map (\<lambda>i.
                 let start = nat (max 0 (int i - int halfWindow));
                     end' = min (length trend) (i + halfWindow + 1);
                     window = take (end' - start) (drop start trend);
                     sum = foldl (+) 0 window;
                     avg = sum / real (length window)
                 in Math_round avg)
             [0..<length trend]))"

text \<open>The \<^verbatim>\<open>Map<string, SessionRecord[]>\<close> of sessions by day, filled in session order.\<close>

definition sessionsByDay :: "SessionRecord list \<Rightarrow> (string \<rightharpoonup> SessionRecord list)" where
  "sessionsByDay sessions =
    foldl (\<lambda>m session.
             case m (date session) of
               Some list \<Rightarrow> m(date session \<mapsto> list @ [session])
             | None \<Rightarrow> m(date session \<mapsto> [session]))
          Map.empty sessions"

text \<open>
  The loop over the dates: the value pushed for a date, then the rest of the dates
  with the updated \<^verbatim>\<open>lastScore\<close>.
\<close>

fun dailyScores ::
  "(string \<rightharpoonup> SessionRecord list) \<Rightarrow> ScoreFormulaVersion \<Rightarrow> real \<Rightarrow> string list \<Rightarrow> real list"
where
  "dailyScores byDay version lastScore [] = []"
| "dailyScores byDay version lastScore (d # dates) =
    (case byDay d of
       Some dailySessions \<Rightarrow>
         if length dailySessions > 0 then
           (let score = computeScore (computeMetrics dailySessions) version
            in score # dailyScores byDay version score dates)
         else lastScore # dailyScores byDay version lastScore dates
     | None \<Rightarrow> lastScore # dailyScores byDay version lastScore dates)"

definition buildTrendForTutor ::
  "SessionRecord list \<Rightarrow> string list \<Rightarrow> real \<Rightarrow> ScoreFormulaVersion \<Rightarrow> real list"
where
  "buildTrendForTutor sessions dates fallbackScore formulaVersion =
    smoothTrend (dailyScores (sessionsByDay sessions) formulaVersion fallbackScore dates) 3"

text \<open>
  The trend builder in the words of the specification.  Day \<open>i\<close> of the raw sequence
  is the score of that day's sessions alone when there are any, else the value of the
  day before, the overall score standing in before the first day.  The smoothed value
  at \<open>i\<close> is the rounded mean of the raw values at \<open>i - 1\<close>, \<open>i\<close> and \<open>i + 1\<close>,
  as far as these indices exist.
\<close>

fun spec_raw_day :: "SessionRecord list \<Rightarrow> ScoreFormulaVersion \<Rightarrow> string list \<Rightarrow> nat \<Rightarrow> real" where
  "spec_raw_day sessions version dates 0 =
    (let today = filter (\<lambda>s. date s = dates ! 0) sessions
     in if today \<noteq> [] then computeScore (computeMetrics today) version
        else computeScore (computeMetrics sessions) version)"
| "spec_raw_day sessions version dates (Suc i) =
    (let today = filter (\<lambda>s. date s = dates ! Suc i) sessions
     in if today \<noteq> [] then computeScore (computeMetrics today) version
        else spec_raw_day sessions version dates i)"

definition spec_trend :: "SessionRecord list \<Rightarrow> ScoreFormulaVersion \<Rightarrow> string list \<Rightarrow> real list" where
  "spec_trend sessions version dates =
    map (\<lambda>i. let window = map (spec_raw_day sessions version dates)
                               [i - 1 ..< min (length dates) (i + 2)]
              in Math_round (sum_list window / real (length window)))
        [0..<length dates]"

section \<open>Per-tutor scoring step (runScoringPipeline, round)\<close>

record TutorKpis =
  avg_rating :: "real option"
  dropout_rate :: real
  tech_issue_rate :: real
  reschedule_rate :: real
  sessions_count :: real
  first_session_avg_rating :: "real option"
  first_session_dropout_rate :: real
  first_session_count :: real
  tutor_initiated_reschedule_rate :: real
  no_show_rate :: real

record TutorFeatureInput =
  tutor_id :: string
  name :: string
  subject :: string
  score :: real
  trend_7d :: "real list"
  churn_risk :: real
  kpis :: TutorKpis

definition round_to :: "real \<Rightarrow> nat \<Rightarrow> real" where
  "round_to v decimals = (let factor = 10 ^ decimals in Math_round (v * factor) / factor)"

text \<open>
  \<^verbatim>\<open>Number(x.toFixed(1))\<close>: the decimal with one fractional digit nearest to \<open>x\<close>,
  the sign set aside first and a tie going to the larger magnitude.
\<close>

definition toFixed1 :: "real \<Rightarrow> real" where
  "toFixed1 x = (if x < 0 then - (of_int \<lfloor>- x * 10 + 1 / 2\<rfloor> / 10)
                 else of_int \<lfloor>x * 10 + 1 / 2\<rfloor> / 10)"

text \<open>
  The body of the loop over the tutors in \<^verbatim>\<open>runScoringPipeline\<close>: the tutor's
  output record, whose fields are copied unchanged into the \<^verbatim>\<open>TutorFeatureInput\<close>.
\<close>

definition scoreTutor ::
  "string \<Rightarrow> string \<Rightarrow> string \<Rightarrow> SessionRecord list \<Rightarrow> string list \<Rightarrow> ScoreFormulaVersion
     \<Rightarrow> TutorFeatureInput"
where
  "scoreTutor tid nm subj sessions trendDates formulaVersion =
    (let metrics = computeMetrics sessions;
         sc = computeScore metrics formulaVersion;
         trend = buildTrendForTutor sessions trendDates sc formulaVersion;
         churnRisk = computeChurnRisk metrics sc trend
     in \<lparr>tutor_id = tid, name = nm, subject = subj, score = sc, trend_7d = trend,
         churn_risk = toFixed1 (churnRisk * 100),
         kpis = \<lparr>avg_rating = map_option (\<lambda>r. round_to r 2) (avgRating metrics),
                  dropout_rate = round_to (dropoutRate metrics) 4,
                  tech_issue_rate = round_to (techIssueRate metrics) 4,
                  reschedule_rate = round_to (rescheduleRate metrics) 4,
                  sessions_count = sessionsCount metrics,
                  first_session_avg_rating =
                    map_option (\<lambda>r. round_to r 2) (firstSessionAvgRating metrics),
                  first_session_dropout_rate = round_to (firstSessionDropoutRate metrics) 4,
                  first_session_count = firstSessionCount metrics,
                  tutor_initiated_reschedule_rate =
                    round_to (tutorInitiatedRescheduleRate metrics) 4,
                  no_show_rate = round_to (noShowRate metrics) 4\<rparr>\<rparr>)"

section \<open>Feature engineering (lib/ai/feature\_engineering.ts, types/ai.ts)\<close>

text \<open>
  A \<^verbatim>\<open>Record<string, number>\<close> is an association list in insertion order; an
  assignment \<^verbatim>\<open>r[key] = v\<close> is \<open>AList.update\<close>, which overwrites in place or
  appends.  \<^verbatim>\<open>r[key] ?? d\<close> reads the key with a default.
\<close>

type_synonym NumRecord = "(string \<times> real) list"

definition getOr :: "NumRecord \<Rightarrow> string \<Rightarrow> real \<Rightarrow> real" where
  "getOr r key d = (case map_of r key of Some v \<Rightarrow> v | None \<Rightarrow> d)"

record TutorFeatureVector =
  tutorId :: string
  features :: NumRecord
  labelChurn :: real

record FeatureStatistics =
  means :: NumRecord
  stdDevs :: NumRecord

record FeatureMatrix =
  vectors :: "TutorFeatureVector list"
  featureOrder :: "string list"
  stats :: FeatureStatistics

definition FEATURE_KEYS :: "string list" where
  "FEATURE_KEYS =
    [''dropout_rate'', ''tech_issue_rate'', ''reschedule_rate'', ''sessions_count'',
     ''avg_rating'', ''first_session_avg_rating'', ''first_session_dropout_rate'',
     ''first_session_count'', ''tutor_initiated_reschedule_rate'', ''no_show_rate'',
     ''score'', ''trend_slope'', ''trend_variance'', ''trend_velocity'', ''churn_risk'']"

definition safeNumber :: "real option \<Rightarrow> real" where
  "safeNumber v = (case v of Some x \<Rightarrow> x | None \<Rightarrow> 0)"

definition computeTrendSlope :: "real list \<Rightarrow> real" where
  "computeTrendSlope tr =
    (if length tr = 0 then 0
     else
       (let n = length tr;
            xMean = (real n - 1) / 2;
            yMean = foldl (+) 0 tr / real n;
            numerator = foldl (\<lambda>acc i. acc + (real i - xMean) * (tr ! i - yMean)) 0 [0..<n];
            denominator = foldl (\<lambda>acc i. acc + (real i - xMean) ^ 2) 0 [0..<n]
        in if denominator = 0 then 0 else numerator / denominator))"

definition computeTrendVariance :: "real list \<Rightarrow> real" where
  "computeTrendVariance tr =
    (if length tr = 0 then 0
     else
       (let mean = foldl (+) 0 tr / real (length tr)
        in foldl (\<lambda>sum v. sum + (v - mean) ^ 2) 0 tr / real (length tr)))"

definition computeTrendVelocity :: "real list \<Rightarrow> real" where
  "computeTrendVelocity tr =
    (if length tr < 2 then 0 else tr ! (length tr - 1) - tr ! 0)"

definition buildFeatureVector :: "TutorFeatureInput \<Rightarrow> TutorFeatureVector" where
  "buildFeatureVector t =
    (let k = kpis t;
         trendSlope = computeTrendSlope (trend_7d t);
         trendVariance = computeTrendVariance (trend_7d t);
         trendVelocity = computeTrendVelocity (trend_7d t)
     in \<lparr>tutorId = tutor_id t,
         features =
           [(''dropout_rate'', safeNumber (Some (dropout_rate k))),
            (''tech_issue_rate'', safeNumber (Some (tech_issue_rate k))),
            (''reschedule_rate'', safeNumber (Some (reschedule_rate k))),
            (''sessions_count'', safeNumber (Some (sessions_count k))),
            (''avg_rating'', safeNumber (avg_rating k)),
            (''first_session_avg_rating'', safeNumber (first_session_avg_rating k)),
            (''first_session_dropout_rate'', safeNumber (Some (first_session_dropout_rate k))),
            (''first_session_count'', safeNumber (Some (first_session_count k))),
            (''tutor_initiated_reschedule_rate'',
               safeNumber (Some (tutor_initiated_reschedule_rate k))),
            (''no_show_rate'', safeNumber (Some (no_show_rate k))),
            (''score'', safeNumber (Some (score t))),
            (''trend_slope'', trendSlope),
            (''trend_variance'', trendVariance),
            (''trend_velocity'', trendVelocity),
            (''churn_risk'', safeNumber (Some (churn_risk t / 100)))],
         labelChurn =
           (if score t < 60 \<or> churn_risk t > 55 \<or> dropout_rate k > 0.18 then 1 else 0)\<rparr>)"

text \<open>
  The loop over \<^verbatim>\<open>FEATURE_KEYS\<close> in \<^verbatim>\<open>computeStatistics\<close>.  Its locals
  \<^verbatim>\<open>values\<close>, \<^verbatim>\<open>mean\<close>, \<^verbatim>\<open>variance\<close> and \<^verbatim>\<open>stdDev\<close> depend on the
  vectors and the key only, and are functions of these; \<open>statisticsStep\<close> is one
  pass, storing the mean and the standard deviation under the key.
  \<^verbatim>\<open>Math.sqrt(variance) || 1\<close> is 1 when the square root is 0.
\<close>

definition featureValues :: "TutorFeatureVector list \<Rightarrow> string \<Rightarrow> real list" where
  "featureValues vs key = map (\<lambda>vector. getOr (features vector) key 0) vs"

definition featureMean :: "TutorFeatureVector list \<Rightarrow> string \<Rightarrow> real" where
  "featureMean vs key =
    foldl (+) 0 (featureValues vs key) / real (max (length (featureValues vs key)) 1)"

definition featureVariance :: "TutorFeatureVector list \<Rightarrow> string \<Rightarrow> real" where
  "featureVariance vs key =
    foldl (\<lambda>sum v. sum + (v - featureMean vs key) ^ 2) 0 (featureValues vs key) /
    real (max (length (featureValues vs key)) 1)"

definition featureStdDev :: "TutorFeatureVector list \<Rightarrow> string \<Rightarrow> real" where
  "featureStdDev vs key =
    (if sqrt (featureVariance vs key) = 0 then 1 else sqrt (featureVariance vs key))"

definition statisticsStep ::
  "TutorFeatureVector list \<Rightarrow> FeatureStatistics \<Rightarrow> string \<Rightarrow> FeatureStatistics" where
  "statisticsStep vs st key =
    \<lparr>means = AList.update key (featureMean vs key) (means st),
     stdDevs = AList.update key (featureStdDev vs key) (stdDevs st)\<rparr>"

definition computeStatistics :: "TutorFeatureVector list \<Rightarrow> FeatureStatistics" where
  "computeStatistics vs = foldl (statisticsStep vs) \<lparr>means = [], stdDevs = []\<rparr> FEATURE_KEYS"

definition buildFeatureMatrix :: "TutorFeatureInput list \<Rightarrow> FeatureMatrix" where
  "buildFeatureMatrix tutors =
    (let vs = map buildFeatureVector tutors;
         st = computeStatistics vs
     in \<lparr>vectors = vs, featureOrder = FEATURE_KEYS, stats = st\<rparr>)"

text \<open>
  \<^verbatim>\<open>normaliseFeature\<close> is called with \<^verbatim>\<open>stats.means[key]\<close> and
  \<^verbatim>\<open>stats.stdDevs[key]\<close>, which are \<^verbatim>\<open>undefined\<close> for a key the statistics do
  not hold.  An argument \<open>None\<close> is \<^verbatim>\<open>undefined\<close>; arithmetic on it gives NaN,
  which is the result \<open>None\<close>.  A number that may be NaN for this reason is a
  \<open>real option\<close> from here on, and \<open>nan2\<close> lifts a binary operation to such numbers.
\<close>

definition normaliseFeature :: "real \<Rightarrow> real option \<Rightarrow> real option \<Rightarrow> real option" where
  "normaliseFeature v mean stdDev =
    (if stdDev = Some 0 then Some 0
     else (case (mean, stdDev) of
             (Some m, Some s) \<Rightarrow> Some ((v - m) / s)
           | _ \<Rightarrow> None))"

definition nan2 :: "(real \<Rightarrow> real \<Rightarrow> real) \<Rightarrow> real option \<Rightarrow> real option \<Rightarrow> real option" where
  "nan2 f a b = (case (a, b) of (Some x, Some y) \<Rightarrow> Some (f x y) | _ \<Rightarrow> None)"

definition toArrayFeatures ::
  "TutorFeatureVector \<Rightarrow> FeatureStatistics \<Rightarrow> string list \<Rightarrow> real option list" where
  "toArrayFeatures vector st order =
    map (\<lambda>key. normaliseFeature (getOr (features vector) key 0)
                 (map_of (means st) key) (map_of (stdDevs st) key)) order"

section \<open>Churn predictor (lib/ai/churn\_predictor.ts)\<close>

type_synonym NanRecord = "(string \<times> real option) list"

text \<open>\<^verbatim>\<open>r[key]\<close> used as a number: a missing key is \<^verbatim>\<open>undefined\<close>, hence NaN.\<close>

definition numAt :: "NanRecord \<Rightarrow> string \<Rightarrow> real option" where
  "numAt r key = (case map_of r key of Some v \<Rightarrow> v | None \<Rightarrow> None)"

record AiModelArtifacts =
  weights :: NanRecord
  bias :: "real option"
  featureKeys :: "string list"
  featureMeans :: NumRecord
  featureStds :: NumRecord

record TrainOptions =
  learningRate :: "real option"
  iterations :: "real option"
  regularization :: "real option"

record HyperParams =
  hpLearningRate :: real
  hpIterations :: real
  hpRegularization :: real

definition DEFAULT_OPTIONS :: HyperParams where
  "DEFAULT_OPTIONS = \<lparr>hpLearningRate = 0.3, hpIterations = 600, hpRegularization = 0.0005\<rparr>"

text \<open>\<^verbatim>\<open>{ ...DEFAULT_OPTIONS, ...options }\<close>: a field of the options that is present wins.\<close>

definition mergeOptions :: "HyperParams \<Rightarrow> TrainOptions \<Rightarrow> HyperParams" where
  "mergeOptions d opts =
    \<lparr>hpLearningRate = (case learningRate opts of Some x \<Rightarrow> x | None \<Rightarrow> hpLearningRate d),
     hpIterations = (case iterations opts of Some x \<Rightarrow> x | None \<Rightarrow> hpIterations d),
     hpRegularization = (case regularization opts of Some x \<Rightarrow> x | None \<Rightarrow> hpRegularization d)\<rparr>"

definition sigmoid :: "real \<Rightarrow> real" where
  "sigmoid v = 1 / (1 + exp (- v))"

definition initialiseWeights :: "string list \<Rightarrow> NanRecord" where
  "initialiseWeights keys = foldl (\<lambda>w key. AList.update key (Some 0) w) [] keys"

text \<open>The linear sum that \<^verbatim>\<open>computePrediction\<close> and \<^verbatim>\<open>predictChurn\<close> both accumulate.\<close>

definition linearSum ::
  "TutorFeatureVector \<Rightarrow> NanRecord \<Rightarrow> real option \<Rightarrow> NumRecord \<Rightarrow> NumRecord \<Rightarrow> string list
     \<Rightarrow> real option" where
  "linearSum vector w b ms sds order =
    foldl (\<lambda>sum key.
             let v = getOr (features vector) key 0;
                 normalised = normaliseFeature v (map_of ms key) (map_of sds key)
             in nan2 (+) sum (nan2 (*) (numAt w key) normalised))
          b order"

definition computePrediction ::
  "TutorFeatureVector \<Rightarrow> NanRecord \<Rightarrow> real option \<Rightarrow> FeatureStatistics \<Rightarrow> string list
     \<Rightarrow> real option" where
  "computePrediction vector w b st order =
    map_option sigmoid (linearSum vector w b (means st) (stdDevs st) order)"

text \<open>
  The loop over the vectors inside one iteration: the state is the bias gradient and
  the weight gradients.
\<close>

definition gradientStep ::
  "NanRecord \<Rightarrow> real option \<Rightarrow> FeatureStatistics \<Rightarrow> string list
     \<Rightarrow> real option \<times> NanRecord \<Rightarrow> TutorFeatureVector \<Rightarrow> real option \<times> NanRecord" where
  "gradientStep w b st order g vector =
    (let prediction = computePrediction vector w b st order;
         error = nan2 (-) prediction (Some (labelChurn vector));
         biasGradient = nan2 (+) (fst g) error;
         weightGradients =
           foldl (\<lambda>wg key.
                    let v = getOr (features vector) key 0;
                        normalised = normaliseFeature v (map_of (means st) key)
                                       (map_of (stdDevs st) key)
                    in AList.update key (nan2 (+) (numAt wg key) (nan2 (*) error normalised)) wg)
                 (snd g) order
     in (biasGradient, weightGradients))"

text \<open>One iteration of gradient descent: the state is the bias and the weights.\<close>

definition trainIteration ::
  "HyperParams \<Rightarrow> FeatureMatrix \<Rightarrow> real option \<times> NanRecord \<Rightarrow> real option \<times> NanRecord" where
  "trainIteration hp matrix s =
    (let b = fst s; w = snd s;
         order = featureOrder matrix;
         n = real (length (vectors matrix));
         g0 = (Some 0, foldl (\<lambda>wg key. AList.update key (Some 0) wg) [] order);
         g = foldl (gradientStep w b (stats matrix) order) g0 (vectors matrix);
         b' = nan2 (-) b (nan2 (*) (Some (hpLearningRate hp / n)) (fst g));
         w' = foldl (\<lambda>ws key.
                       let regularisationTerm = nan2 (*) (Some (hpRegularization hp)) (numAt ws key)
                       in AList.update key
                            (nan2 (-) (numAt ws key)
                               (nan2 (+) (nan2 (*) (Some (hpLearningRate hp / n)) (numAt (snd g) key))
                                  regularisationTerm))
                            ws)
                    w order
     in (b', w'))"

text \<open>
  The counting loop \<^verbatim>\<open>for (iteration = 0; iteration < iterations; iteration += 1)\<close>
  runs \<open>\<lceil>iterations\<rceil>\<close> times, and not at all for a count that is not positive.
\<close>

definition trainChurnModel :: "FeatureMatrix \<Rightarrow> TrainOptions \<Rightarrow> AiModelArtifacts" where
  "trainChurnModel matrix opts =
    (if length (vectors matrix) = 0 then
       \<lparr>weights = initialiseWeights (featureOrder matrix), bias = Some 0,
        featureKeys = featureOrder matrix, featureMeans = means (stats matrix),
        featureStds = stdDevs (stats matrix)\<rparr>
     else
       (let hyperParams = mergeOptions DEFAULT_OPTIONS opts;
            s = ((trainIteration hyperParams matrix) ^^ nat \<lceil>hpIterations hyperParams\<rceil>)
                  (Some 0, initialiseWeights (featureOrder matrix))
        in \<lparr>weights = snd s, bias = fst s, featureKeys = featureOrder matrix,
            featureMeans = means (stats matrix), featureStds = stdDevs (stats matrix)\<rparr>))"

record ChurnPrediction =
  probability :: "real option"
  confidence :: "real option"

definition predictChurn :: "TutorFeatureVector \<Rightarrow> AiModelArtifacts \<Rightarrow> ChurnPrediction" where
  "predictChurn vector model =
    (let sum = linearSum vector (weights model) (bias model) (featureMeans model)
                 (featureStds model) (featureKeys model)
     in \<lparr>probability = map_option sigmoid sum,
         confidence = map_option (\<lambda>s. min 1 (\<bar>s\<bar> / 4 + 0.25)) sum\<rparr>)"

section \<open>Anomaly detector (lib/ai/anomaly\_detector.ts)\<close>

text \<open>
  \<^verbatim>\<open>clamp\<close> of the anomaly detector and of the trend forecaster: the two differ only
  in how they test for a value that is not a number, and are one function on reals.
\<close>

definition clamp :: "real \<Rightarrow> real \<Rightarrow> real \<Rightarrow> real" where
  "clamp v lo hi = min hi (max lo v)"

definition computeZScore :: "real \<Rightarrow> real \<Rightarrow> real \<Rightarrow> real" where
  "computeZScore v mean stdDev = (if stdDev = 0 then 0 else (v - mean) / stdDev)"

datatype AnomalyLabel = normal | watch | critical

text \<open>
  The contributors are kept as pairs of feature and z-score; the source renders each
  pair as a line of text.
\<close>

record AnomalyResult =
  anomaly_score :: real
  anomaly_label :: AnomalyLabel
  contributors :: "(string \<times> real) list"

definition WEIGHTED_FEATURES :: NumRecord where
  "WEIGHTED_FEATURES =
    [(''dropout_rate'', 1.2), (''no_show_rate'', 1.1),
     (''tutor_initiated_reschedule_rate'', 1.0), (''trend_velocity'', 0.8),
     (''trend_variance'', 0.6), (''sessions_count'', 0.4)]"

definition detectAnomaly :: "TutorFeatureVector \<Rightarrow> FeatureMatrix \<Rightarrow> AnomalyResult" where
  "detectAnomaly vector matrix =
    (let acc = foldl (\<lambda>(cs, anomalyScore) (feature, weight).
                        let mean = getOr (means (stats matrix)) feature 0;
                            stdDev = getOr (stdDevs (stats matrix)) feature 1;
                            v = getOr (features vector) feature 0;
                            zScore = \<bar>computeZScore v mean stdDev\<bar>
                        in (if zScore > 1.75 then cs @ [(feature, zScore)] else cs,
                            anomalyScore + zScore * weight))
                     ([], 0) WEIGHTED_FEATURES;
         normalised = clamp (snd acc / 12) 0 1
     in \<lparr>anomaly_score = normalised,
         anomaly_label = (if normalised > 0.65 then critical
                          else if normalised > 0.4 then watch else normal),
         contributors = fst acc\<rparr>)"

section \<open>Trend forecaster (lib/ai/trend\_forecaster.ts)\<close>

datatype AiTrajectory = improving | declining | volatile | stable

text \<open>The forecast without its \<^verbatim>\<open>description\<close>, a sentence rendered from the other fields.\<close>

record AiForecast =
  score7d :: real
  score14d :: real
  trajectory :: AiTrajectory
  forecast_confidence :: real

record Regression =
  slope :: real
  intercept :: real

definition computeLinearRegression :: "real list \<Rightarrow> Regression" where
  "computeLinearRegression tr =
    (let n = length tr
     in if n = 0 then \<lparr>slope = 0, intercept = 0\<rparr>
        else
          (let xMean = (real n - 1) / 2;
               yMean = foldl (+) 0 tr / real n;
               numerator = foldl (\<lambda>acc i. acc + (real i - xMean) * (tr ! i - yMean)) 0 [0..<n];
               denominator = foldl (\<lambda>acc i. acc + (real i - xMean) ^ 2) 0 [0..<n];
               sl = (if denominator = 0 then 0 else numerator / denominator)
           in \<lparr>slope = sl, intercept = yMean - sl * xMean\<rparr>))"

text \<open>The fallback of \<^verbatim>\<open>projectValue\<close> stands for a value that is not finite.\<close>

definition projectValue :: "real \<Rightarrow> real \<Rightarrow> real \<Rightarrow> real \<Rightarrow> real" where
  "projectValue index sl ic fallback = sl * index + ic"

definition classifyTrajectory :: "real \<Rightarrow> real \<Rightarrow> AiTrajectory" where
  "classifyTrajectory sl variance =
    (if \<bar>sl\<bar> < 0.5 \<and> variance > 30 then volatile
     else if sl > 0.5 then improving
     else if sl < - 0.5 then declining
     else stable)"

definition computeVariance :: "real list \<Rightarrow> real" where
  "computeVariance tr =
    (if length tr = 0 then 0
     else
       (let mean = foldl (+) 0 tr / real (length tr)
        in foldl (\<lambda>sum v. sum + (v - mean) ^ 2) 0 tr / real (length tr)))"

definition forecastTrend :: "real list \<Rightarrow> real \<Rightarrow> AiForecast" where
  "forecastTrend tr currentScore =
    (let regression = computeLinearRegression tr;
         variance = computeVariance tr;
         nextIndex7 = real (length tr + 7);
         nextIndex14 = real (length tr + 14);
         projected7 = projectValue nextIndex7 (slope regression) (intercept regression) currentScore;
         projected14 = projectValue nextIndex14 (slope regression) (intercept regression) projected7;
         clamped7 = clamp projected7 0 100;
         clamped14 = clamp projected14 0 100;
         tj = classifyTrajectory (slope regression) variance;
         cf = clamp (1 - min 1 (variance / 80)) 0.2 0.95
     in \<lparr>score7d = clamped7, score14d = clamped14, trajectory = tj, forecast_confidence = cf\<rparr>)"

text \<open>
  The confidence in the words of the specification: the population variance of the
  trend values, then \<open>clamp(1 - min(1, variance/80), 0.2, 0.95)\<close>.
\<close>

definition spec_population_variance :: "real list \<Rightarrow> real" where
  "spec_population_variance xs =
    (if xs = [] then 0
     else (\<Sum>x\<leftarrow>xs. (x - sum_list xs / real (length xs)) ^ 2) / real (length xs))"

definition spec_confidence :: "real list \<Rightarrow> real" where
  "spec_confidence xs =
    max 0.2 (min 0.95 (1 - min 1 (spec_population_variance xs / 80)))"

section \<open>Persona classifier (lib/ai/pattern\_recognition.ts)\<close>

record AiPersonaProfile =
  persona_id :: string
  label :: string
  description :: string
  strengths :: "string list"
  risks :: "string list"

definition PERSONA_LIBRARY :: "AiPersonaProfile list" where
  "PERSONA_LIBRARY =
    [\<lparr>persona_id = ''rising-star'', label = ''Rising Star'',
      description = ''Strong fundamentals with positive momentum. Benefit from advanced coaching to accelerate growth.'',
      strengths = [''Consistent improvements'', ''High student satisfaction''],
      risks = [''Needs stretch assignments'', ''Watch for burnout'']\<rparr>,
     \<lparr>persona_id = ''at-risk-newcomer'', label = ''At-Risk Newcomer'',
      description = ''Early-stage tutor with unstable first-session outcomes. Requires structured onboarding support.'',
      strengths = [''Coachability'', ''Fresh perspective''],
      risks = [''High first-session churn'', ''Inconsistent delivery'']\<rparr>,
     \<lparr>persona_id = ''reliability-challenged'', label = ''Reliability Challenged'',
      description = ''High dropout or reschedule behavior impacting student trust. Focus on accountability frameworks.'',
      strengths = [''Strong subject expertise''],
      risks = [''Scheduling reliability'', ''Attendance issues'']\<rparr>,
     \<lparr>persona_id = ''stabilizing'', label = ''Stabilizing Performer'',
      description = ''Recovering from previous performance issues with signs of stabilization. Keep momentum with lightweight support.'',
      strengths = [''Trend improving'', ''Responds to coaching''],
      risks = [''Fragile confidence'', ''Needs reinforcement'']\<rparr>]"

text \<open>
  \<^verbatim>\<open>new Set([...Object.keys(a), ...Object.keys(b)])\<close> keeps the first occurrence of
  every key, in order.
\<close>

definition keyUnion :: "NumRecord \<Rightarrow> NumRecord \<Rightarrow> string list" where
  "keyUnion a b = rev (remdups (rev (map fst a @ map fst b)))"

definition euclideanDistance :: "NumRecord \<Rightarrow> NumRecord \<Rightarrow> real" where
  "euclideanDistance a b =
    sqrt (foldl (\<lambda>sum key. let diff = getOr a key 0 - getOr b key 0 in sum + diff * diff)
                0 (keyUnion a b))"

definition normaliseVector :: "TutorFeatureVector \<Rightarrow> NumRecord" where
  "normaliseVector vector =
    [(''dropout_rate'', getOr (features vector) ''dropout_rate'' 0),
     (''first_session_dropout_rate'', getOr (features vector) ''first_session_dropout_rate'' 0),
     (''tutor_initiated_reschedule_rate'',
        getOr (features vector) ''tutor_initiated_reschedule_rate'' 0),
     (''no_show_rate'', getOr (features vector) ''no_show_rate'' 0),
     (''trend_velocity'', getOr (features vector) ''trend_velocity'' 0 / 100),
     (''trend_slope'', getOr (features vector) ''trend_slope'' 0 / 100),
     (''score'', getOr (features vector) ''score'' 0 / 100)]"

definition personaToCentroid :: "AiPersonaProfile \<Rightarrow> NumRecord" where
  "personaToCentroid p =
    (if persona_id p = ''rising-star'' then
       [(''dropout_rate'', 0.05), (''first_session_dropout_rate'', 0.05),
        (''tutor_initiated_reschedule_rate'', 0.05), (''no_show_rate'', 0.03),
        (''trend_velocity'', 0.2), (''trend_slope'', 0.3), (''score'', 0.85)]
     else if persona_id p = ''at-risk-newcomer'' then
       [(''dropout_rate'', 0.2), (''first_session_dropout_rate'', 0.35),
        (''tutor_initiated_reschedule_rate'', 0.1), (''no_show_rate'', 0.05),
        (''trend_velocity'', - 0.15), (''trend_slope'', - 0.1), (''score'', 0.45)]
     else if persona_id p = ''reliability-challenged'' then
       [(''dropout_rate'', 0.25), (''first_session_dropout_rate'', 0.2),
        (''tutor_initiated_reschedule_rate'', 0.35), (''no_show_rate'', 0.2),
        (''trend_velocity'', - 0.05), (''trend_slope'', - 0.05), (''score'', 0.5)]
     else if persona_id p = ''stabilizing'' then
       [(''dropout_rate'', 0.12), (''first_session_dropout_rate'', 0.12),
        (''tutor_initiated_reschedule_rate'', 0.15), (''no_show_rate'', 0.08),
        (''trend_velocity'', 0.05), (''trend_slope'', 0.1), (''score'', 0.65)]
     else
       [(''dropout_rate'', 0.15), (''first_session_dropout_rate'', 0.15),
        (''tutor_initiated_reschedule_rate'', 0.15), (''no_show_rate'', 0.1),
        (''trend_velocity'', 0), (''trend_slope'', 0), (''score'', 0.6)])"

text \<open>
  One pass of the loop of \<^verbatim>\<open>assignPersona\<close>.  The state is \<^verbatim>\<open>closest\<close> and
  \<^verbatim>\<open>minDistance\<close>; the initial \<^verbatim>\<open>Infinity\<close> is \<open>None\<close>, below which every
  distance lies.
\<close>

definition personaStep ::
  "NumRecord \<Rightarrow> AiPersonaProfile \<times> real option \<Rightarrow> AiPersonaProfile
     \<Rightarrow> AiPersonaProfile \<times> real option" where
  "personaStep featureVector s p =
    (let centroid = personaToCentroid p;
         distance = euclideanDistance featureVector centroid
     in if (case snd s of None \<Rightarrow> True | Some minDistance \<Rightarrow> distance < minDistance)
        then (p, Some distance) else s)"

definition assignPersona :: "TutorFeatureVector \<Rightarrow> AiPersonaProfile" where
  "assignPersona vector =
    fst (foldl (personaStep (normaliseVector vector)) (PERSONA_LIBRARY ! 0, None) PERSONA_LIBRARY)"

record ClusterResult =
  persona :: AiPersonaProfile

definition buildClusterInsights :: "TutorFeatureVector \<Rightarrow> ClusterResult" where
  "buildClusterInsights vector = \<lparr>persona = assignPersona vector\<rparr>"

section \<open>Intervention recommender (lib/ai/intervention\_recommender.ts)\<close>

datatype Effort = low | medium | high

text \<open>
  A recommendation without its \<^verbatim>\<open>rationale\<close>, a sentence rendered from the
  tutor's features.
\<close>

record AiInterventionRecommendation =
  intervention_id :: string
  title :: string
  intervention_description :: string
  effectiveness :: real
  effort :: Effort

record InterventionContext =
  churnProbability :: "real option"
  anomalyScore :: real
  forecastTrajectory :: AiTrajectory

record InterventionEntry =
  entry_id :: string
  match :: "TutorFeatureVector \<Rightarrow> InterventionContext \<Rightarrow> real"
  build :: "TutorFeatureVector \<Rightarrow> AiInterventionRecommendation"

definition INTERVENTION_LIBRARY :: "InterventionEntry list" where
  "INTERVENTION_LIBRARY =
    [\<lparr>entry_id = ''first-session-rescue'',
      match = (\<lambda>vector context.
        let dropout' = getOr (features vector) ''first_session_dropout_rate'' 0;
            rating' = getOr (features vector) ''first_session_avg_rating'' 5
        in max 0 (dropout' * 2 + (3.5 - rating'))),
      build = (\<lambda>vector.
        \<lparr>intervention_id = ''first-session-rescue'',
         title = ''First Session Rescue Plan'',
         intervention_description = ''Deploy shadow onboarding, expectation-setting scripts, and immediate post-session follow-ups to stabilize first impressions.'',
         effectiveness = 0.75, effort = medium\<rparr>)\<rparr>,
     \<lparr>entry_id = ''tech-intervention'',
      match = (\<lambda>vector context. getOr (features vector) ''tech_issue_rate'' 0 * 4),
      build = (\<lambda>vector.
        \<lparr>intervention_id = ''tech-intervention'',
         title = ''Technical Coaching & Equipment Audit'',
         intervention_description = ''Schedule a diagnostics session, run through the platform checklist, and provide backup equipment recommendations.'',
         effectiveness = 0.68, effort = high\<rparr>)\<rparr>,
     \<lparr>entry_id = ''scheduling-discipline'',
      match = (\<lambda>vector context.
        getOr (features vector) ''tutor_initiated_reschedule_rate'' 0 * 3),
      build = (\<lambda>vector.
        \<lparr>intervention_id = ''scheduling-discipline'',
         title = ''Scheduling Discipline Reset'',
         intervention_description = ''Introduce confirmation cadences, calendar guardrails, and accountability rituals to reduce tutor-initiated reschedules.'',
         effectiveness = 0.62, effort = medium\<rparr>)\<rparr>,
     \<lparr>entry_id = ''no-show-mitigation'',
      match = (\<lambda>vector context. getOr (features vector) ''no_show_rate'' 0 * 4),
      build = (\<lambda>vector.
        \<lparr>intervention_id = ''no-show-mitigation'',
         title = ''Attendance Reinforcement'',
         intervention_description = ''Activate reminder automations, implement last-mile check-ins, and escalate repeat no-shows to coaching leadership.'',
         effectiveness = 0.65, effort = medium\<rparr>)\<rparr>,
     \<lparr>entry_id = ''quality-lift'',
      match = (\<lambda>vector context.
        let rating' = getOr (features vector) ''avg_rating'' 5 in max 0 (4.5 - rating')),
      build = (\<lambda>vector.
        \<lparr>intervention_id = ''quality-lift'',
         title = ''Quality Lift Mentorship'',
         intervention_description = ''Pair with top-performing mentor for feedback loops, session reviews, and targeted skill drills.'',
         effectiveness = 0.58, effort = high\<rparr>)\<rparr>,
     \<lparr>entry_id = ''momentum-boost'',
      match = (\<lambda>vector context.
        if forecastTrajectory context = declining
        then \<bar>getOr (features vector) ''trend_velocity'' 0\<bar> / 10 else 0),
      build = (\<lambda>vector.
        \<lparr>intervention_id = ''momentum-boost'',
         title = ''Momentum Boost Sprint'',
         intervention_description = ''Launch a 7-day performance sprint with defined targets, daily check-ins, and progress dashboards to reverse decline.'',
         effectiveness = 0.55, effort = low\<rparr>)\<rparr>]"

text \<open>
  The candidates of \<^verbatim>\<open>recommendInterventions\<close> that pass the filter, sorted and cut
  to three: pairs of the built recommendation and its match score.  The sort of the
  source is stable and orders by falling score, which is \<open>sort_key\<close> on the negated
  score.
\<close>

definition rankedCandidates ::
  "TutorFeatureVector \<Rightarrow> InterventionContext \<Rightarrow> (AiInterventionRecommendation \<times> real) list" where
  "rankedCandidates vector context =
    (let scored = filter (\<lambda>entry. snd entry > 0.05)
                    (map (\<lambda>item. (build item vector, match item vector context))
                       INTERVENTION_LIBRARY)
     in take 3 (sort_key (\<lambda>entry. - snd entry) scored))"

definition recommendInterventions ::
  "TutorFeatureVector \<Rightarrow> InterventionContext \<Rightarrow> AiInterventionRecommendation list" where
  "recommendInterventions vector context =
    map (\<lambda>(index, entry).
           (fst entry)\<lparr>effectiveness := min 0.95 (effectiveness (fst entry) + real index * 0.05)\<rparr>)
        (enumerate 0 (rankedCandidates vector context))"

section \<open>Orchestrator (lib/ai/ai\_orchestrator.ts)\<close>

text \<open>
  The insight bundle with its structured fields.  The texts of the bundle (model
  version, summary, signals, coaching plan) and the threshold recommendation, which
  no field here depends on, are left out.  The persona is nullable, as declared.
\<close>

record TutorAiInsights =
  churnProbability :: "real option"
  churnConfidence :: "real option"
  anomalyScore :: real
  forecast :: AiForecast
  interventions :: "AiInterventionRecommendation list"
  persona :: "AiPersonaProfile option"

text \<open>
  One pass of the loop over the vectors in \<^verbatim>\<open>generateAiInsights\<close>; the
  \<^verbatim>\<open>Map\<close> of insights is an association list keyed by tutor id.
\<close>

definition insightStep ::
  "TutorFeatureInput list \<Rightarrow> FeatureMatrix \<Rightarrow> AiModelArtifacts
     \<Rightarrow> (string \<times> TutorAiInsights) list \<Rightarrow> TutorFeatureVector
     \<Rightarrow> (string \<times> TutorAiInsights) list" where
  "insightStep tutors matrix model insightsMap vector =
    (let churn = predictChurn vector model;
         anomaly = detectAnomaly vector matrix
     in case find (\<lambda>t. tutor_id t = tutorId vector) tutors of
          None \<Rightarrow> insightsMap
        | Some matchedTutor \<Rightarrow>
            (let fc = forecastTrend (trend_7d matchedTutor) (score matchedTutor);
                 personaResult = buildClusterInsights vector;
                 recs = recommendInterventions vector
                          \<lparr>InterventionContext.churnProbability = probability churn,
                           InterventionContext.anomalyScore = anomaly_score anomaly,
                           forecastTrajectory = trajectory fc\<rparr>;
                 baseInsight =
                   \<lparr>churnProbability = probability churn,
                    churnConfidence = confidence churn,
                    anomalyScore = anomaly_score anomaly,
                    forecast = fc,
                    interventions = recs,
                    persona = Some (ClusterResult.persona personaResult)\<rparr>
             in AList.update (tutorId vector) baseInsight insightsMap))"

definition generateAiInsights :: "TutorFeatureInput list \<Rightarrow> (string \<times> TutorAiInsights) list" where
  "generateAiInsights tutors =
    (let matrix = buildFeatureMatrix tutors;
         model = trainChurnModel matrix \<lparr>learningRate = None, iterations = None,
                                         regularization = None\<rparr>
     in foldl (insightStep tutors matrix model) [] (vectors matrix))"

section \<open>Churn-risk heuristic in the words of the specification\<close>

text \<open>
  The weighted sum, the bonus for a first-session rating below 3.0, the score-band
  bonus and the adjustment on last minus first of the trend, clamped to the unit
  interval.  A trend without values has no last and no first, and no adjustment.
\<close>

definition spec_churn_risk :: "AggregatedMetrics \<Rightarrow> real \<Rightarrow> real list \<Rightarrow> real" where
  "spec_churn_risk m sc tr =
    (let base = dropoutRate m * 0.4 + noShowRate m * 0.3 +
                tutorInitiatedRescheduleRate m * 0.2 + firstSessionDropoutRate m * 0.1;
         ratingBonus = (case firstSessionAvgRating m of
                          Some r \<Rightarrow> if r < 3.0 then 0.05 else 0
                        | None \<Rightarrow> 0);
         bandBonus = (if sc < 50 then 0.12 else if sc < 60 then 0.08
                      else if sc < 70 then 0.04 else 0);
         delta = (if tr = [] then 0 else last tr - hd tr);
         trendAdjustment = (if delta < - 15 then 0.07 else if delta < - 8 then 0.04
                            else if delta > 5 then - 0.03 else 0)
     in max 0 (min 1 (base + ratingBonus + bandBonus + trendAdjustment)))"

section \<open>Example inputs\<close>

text \<open>
  A session on one day; a batch of two tutors run through the scoring step, one with a
  completed and one with a dropped session; a feature vector that four interventions
  match; a context for it.
\<close>

definition exampleSession :: "string \<Rightarrow> string \<Rightarrow> SessionStatus \<Rightarrow> real option \<Rightarrow> SessionRecord" where
  "exampleSession sid tid st r =
    \<lparr>sessionId = sid, tutorId = tid, date = ''2025-11-07'', durationMinutes = 60,
     rating = r, status = st, hasTechIssue = False, isFirstSession = False,
     rescheduleInitiator = None, noShow = False\<rparr>"


definition exampleVector :: TutorFeatureVector where
  "exampleVector =
    \<lparr>tutorId = ''t3'',
     features = [(''tech_issue_rate'', 0.5), (''no_show_rate'', 0.25),
                 (''tutor_initiated_reschedule_rate'', 0.2), (''avg_rating'', 4),
                 (''first_session_avg_rating'', 4.5)],
     labelChurn = 0\<rparr>"

definition exampleContext :: InterventionContext where
  "exampleContext = \<lparr>InterventionContext.churnProbability = Some 0.5,
                      InterventionContext.anomalyScore = 0, forecastTrajectory = stable\<rparr>"

text \<open>
  Two sessions of one tutor on consecutive days, and a window of three dates that
  starts one day before the first session.
\<close>

definition trendSessions :: "SessionRecord list" where
  "trendSessions =
    [(exampleSession ''s1'' ''t1'' completed (Some 5))\<lparr>date := ''2025-11-06''\<rparr>,
     exampleSession ''s2'' ''t1'' dropout None]"

definition trendDates :: "string list" where
  "trendDates = [''2025-11-05'', ''2025-11-06'', ''2025-11-07'']"

section \<open>Properties of the score formulas\<close>

lemma computeMetrics_Nil:
  "computeMetrics [] =
     \<lparr>avgRating = None, dropoutRate = 0, techIssueRate = 0, rescheduleRate = 0,
      sessionsCount = 0, firstSessionAvgRating = None, firstSessionDropoutRate = 0,
      firstSessionCount = 0, tutorInitiatedRescheduleRate = 0,
      tutorInitiatedRescheduleCount = 0, noShowRate = 0, noShowCount = 0\<rparr>"
  by (simp add: computeMetrics_def)

lemma clampScore_round:
  "\<exists>k::int. clampScore (Math_round x) = of_int k \<and> 0 \<le> k \<and> k \<le> 100"
proof -
  let ?r = "\<lfloor>x + 1 / 2\<rfloor>"
  consider "?r < 0" | "?r > 100" | "0 \<le> ?r \<and> ?r \<le> 100" by linarith
  then show ?thesis
  proof cases
    case 1
    then have "clampScore (Math_round x) = of_int 0"
      by (simp add: clampScore_def Math_round_def)
    then show ?thesis by (intro exI[of _ 0]) simp
  next
    case 2
    then have "clampScore (Math_round x) = of_int 100"
      by (simp add: clampScore_def Math_round_def)
    then show ?thesis by (intro exI[of _ 100]) simp
  next
    case 3
    then have "clampScore (Math_round x) = of_int ?r"
      by (simp add: clampScore_def Math_round_def)
    with 3 show ?thesis by blast
  qed
qed

lemma computeScore_int:
  "\<exists>k::int. computeScore m version = of_int k \<and> 0 \<le> k \<and> k \<le> 100"
  by (cases version)
    (simp_all add: computeScore_def computeScoreV1_def computeScoreV2_def Let_def clampScore_round)

text \<open>
  C1, as stated: the zero-session metrics fed through \<open>computeScoreV2\<close> give 100.
  They do not: the volume step charges 4 points for fewer than 5 sessions.
\<close>

theorem C1_zero_session_v2_is_not_100:
  "computeScoreV2 (computeMetrics []) \<noteq> 100"
  by (simp add: computeMetrics_Nil computeScoreV2_def clampScore_def Math_round_def)

text \<open>
  C1, amended: for a tutor with zero sessions the v2 formula yields exactly 96, that
  is 100 less the volume penalty of 4; all other penalty terms are 0.
\<close>

theorem C1_zero_session_v2_is_96:
  "computeScoreV2 (computeMetrics []) = 96"
  by (simp add: computeMetrics_Nil computeScoreV2_def clampScore_def Math_round_def)

text \<open>
  C4: for every list of session records and both formula versions the score is an
  integer between 0 and 100.
\<close>

theorem C4_score_integer_in_range:
  "\<exists>k::int. computeScore (computeMetrics sessions) version = of_int k \<and> 0 \<le> k \<and> k \<le> 100"
  by (rule computeScore_int)

section \<open>Properties of the churn-risk heuristic\<close>

lemma clamp01_max_min: "clamp01 v = max 0 (min 1 v)"
  by (simp add: clamp01_def max_def min_def)

lemma trend_delta_nth:
  fixes tr :: "real list"
  shows "2 \<le> length tr \<Longrightarrow> tr ! (length tr - 1) - tr ! 0 = last tr - hd tr"
  by (cases tr) (simp_all add: last_conv_nth hd_conv_nth)

lemma trend_delta_short:
  fixes tr :: "real list"
  shows "length tr < 2 \<Longrightarrow> tr \<noteq> [] \<Longrightarrow> last tr - hd tr = 0"
  by (cases tr) auto

lemma rating_bonus_split:
  "(case opt of Some r \<Rightarrow> if r < (3.0::real) then a + 0.05 else a | None \<Rightarrow> a) =
   a + (case opt of Some r \<Rightarrow> if r < 3.0 then 0.05 else 0 | None \<Rightarrow> (0::real))"
  by (simp split: option.split)

lemma band_bonus_split:
  "(if sc < (50::real) then a + 0.12 else if sc < 60 then a + 0.08
    else if sc < 70 then a + 0.04 else a) =
   a + (if sc < 50 then 0.12 else if sc < 60 then 0.08 else if sc < 70 then 0.04 else (0::real))"
  by simp

lemma trend_adjust_split:
  "(if d < - (15::real) then a + 0.07 else if d < - 8 then a + 0.04
    else if d > 5 then a - 0.03 else a) =
   a + (if d < - 15 then 0.07 else if d < - 8 then 0.04 else if d > 5 then - 0.03 else (0::real))"
  by simp

lemma trend_adjust_zero:
  "(if (0::real) < - 15 then 0.07 else if (0::real) < - 8 then 0.04
    else if (0::real) > 5 then - 0.03 else (0::real)) = 0"
  by simp

lemma computeChurnRisk_spec: "computeChurnRisk m sc tr = spec_churn_risk m sc tr"
proof (cases "2 \<le> length tr")
  case True
  then have ne: "tr \<noteq> []" by auto
  have "computeChurnRisk m sc tr =
        clamp01
         (let d = tr ! (length tr - 1) - tr ! 0;
              r2 = (let r1 = (case firstSessionAvgRating m of
                      Some r \<Rightarrow> if r < 3.0 then
                        (dropoutRate m * 0.4 + noShowRate m * 0.3 +
                         tutorInitiatedRescheduleRate m * 0.2 + firstSessionDropoutRate m * 0.1) + 0.05
                        else (dropoutRate m * 0.4 + noShowRate m * 0.3 +
                         tutorInitiatedRescheduleRate m * 0.2 + firstSessionDropoutRate m * 0.1)
                    | None \<Rightarrow> (dropoutRate m * 0.4 + noShowRate m * 0.3 +
                         tutorInitiatedRescheduleRate m * 0.2 + firstSessionDropoutRate m * 0.1))
                    in if sc < 50 then r1 + 0.12 else if sc < 60 then r1 + 0.08
                       else if sc < 70 then r1 + 0.04 else r1)
          in if d < - 15 then r2 + 0.07 else if d < - 8 then r2 + 0.04
             else if d > 5 then r2 - 0.03 else r2)"
    unfolding computeChurnRisk_def Let_def using True by (simp only: if_True)
  also have "\<dots> = spec_churn_risk m sc tr"
    unfolding spec_churn_risk_def Let_def clamp01_max_min
      rating_bonus_split band_bonus_split trend_adjust_split
      trend_delta_nth[OF True]
    using ne by (simp only: if_False add.assoc)
  finally show ?thesis .
next
  case False
  then have d: "(if tr = [] then 0 else last tr - hd tr) = 0"
    using trend_delta_short[of tr] by auto
  have "computeChurnRisk m sc tr =
        clamp01
         (let r1 = (case firstSessionAvgRating m of
                      Some r \<Rightarrow> if r < 3.0 then
                        (dropoutRate m * 0.4 + noShowRate m * 0.3 +
                         tutorInitiatedRescheduleRate m * 0.2 + firstSessionDropoutRate m * 0.1) + 0.05
                        else (dropoutRate m * 0.4 + noShowRate m * 0.3 +
                         tutorInitiatedRescheduleRate m * 0.2 + firstSessionDropoutRate m * 0.1)
                    | None \<Rightarrow> (dropoutRate m * 0.4 + noShowRate m * 0.3 +
                         tutorInitiatedRescheduleRate m * 0.2 + firstSessionDropoutRate m * 0.1))
          in if sc < 50 then r1 + 0.12 else if sc < 60 then r1 + 0.08
             else if sc < 70 then r1 + 0.04 else r1)"
    unfolding computeChurnRisk_def Let_def using False by (simp only: if_False)
  also have "\<dots> = spec_churn_risk m sc tr"
    unfolding spec_churn_risk_def Let_def clamp01_max_min d
      rating_bonus_split band_bonus_split trend_adjust_zero
    by (simp only: add.assoc add_0_right)
  finally show ?thesis .
qed

lemma spec_churn_risk_range: "0 \<le> spec_churn_risk m sc tr \<and> spec_churn_risk m sc tr \<le> 1"
  unfolding spec_churn_risk_def Let_def by (simp only: max.cobounded1 max.bounded_iff min.cobounded1) simp

text \<open>
  C6: for every metrics record, score and trend the churn-risk heuristic equals the
  formula of the specification, and its value lies between 0 and 1.
\<close>

theorem C6_churn_risk:
  "computeChurnRisk m sc tr = spec_churn_risk m sc tr \<and>
   0 \<le> computeChurnRisk m sc tr \<and> computeChurnRisk m sc tr \<le> 1"
  using computeChurnRisk_spec[of m sc tr] spec_churn_risk_range[of m sc tr] by (simp only:)

section \<open>Properties of the trend forecaster\<close>

lemma foldl_plus_sum_list: "foldl (+) (a::real) xs = a + sum_list xs"
  by (induction xs arbitrary: a) simp_all

lemma foldl_plus_map: "foldl (\<lambda>s v. s + f v) (a::real) xs = a + sum_list (map f xs)"
  by (induction xs arbitrary: a) simp_all

lemma computeVariance_spec: "computeVariance xs = spec_population_variance xs"
  by (simp add: computeVariance_def spec_population_variance_def Let_def
      foldl_plus_sum_list foldl_plus_map)

lemma clamp_bounds:
  "0.2 \<le> max 0.2 (min 0.95 (y::real)) \<and> max 0.2 (min 0.95 y) \<le> 0.95"
  unfolding max_def min_def by auto

text \<open>
  C9: for every trend the forecast confidence is
  \<open>clamp(1 - min(1, variance/80), 0.2, 0.95)\<close> on the population variance of the
  trend values, and so lies between 0.2 and 0.95.
\<close>

theorem C9_forecast_confidence:
  "forecast_confidence (forecastTrend tr currentScore) = spec_confidence tr \<and>
   0.2 \<le> forecast_confidence (forecastTrend tr currentScore) \<and>
   forecast_confidence (forecastTrend tr currentScore) \<le> 0.95"
proof -
  have "forecast_confidence (forecastTrend tr currentScore) =
        clamp (1 - min 1 (computeVariance tr / 80)) 0.2 0.95"
    by (simp add: forecastTrend_def Let_def)
  also have "\<dots> = spec_confidence tr"
    by (simp add: clamp_def spec_confidence_def computeVariance_spec max_def min_def)
  finally have eq: "forecast_confidence (forecastTrend tr currentScore) = spec_confidence tr" .
  have "0.2 \<le> spec_confidence tr \<and> spec_confidence tr \<le> 0.95"
    unfolding spec_confidence_def by (rule clamp_bounds)
  with eq show ?thesis by simp
qed

section \<open>Properties of the feature statistics\<close>








lemma FEATURE_KEYS_distinct: "distinct FEATURE_KEYS"
  by (simp add: FEATURE_KEYS_def)

lemma stdDevs_fold_lookup:
  "map_of (stdDevs (foldl (statisticsStep vs) st ks)) k =
   (if k \<in> set ks then Some (featureStdDev vs k) else map_of (stdDevs st) k)"
  by (induction ks arbitrary: st) (simp_all add: statisticsStep_def update_conv')

lemma means_fold_lookup:
  "map_of (means (foldl (statisticsStep vs) st ks)) k =
   (if k \<in> set ks then Some (featureMean vs k) else map_of (means st) k)"
  by (induction ks arbitrary: st) (simp_all add: statisticsStep_def update_conv')






section \<open>Properties of the persona classifier\<close>

lemma personaStep_in_library:
  "fst s \<in> set PERSONA_LIBRARY \<Longrightarrow> p \<in> set PERSONA_LIBRARY \<Longrightarrow>
   fst (personaStep fv s p) \<in> set PERSONA_LIBRARY"
  by (simp add: personaStep_def Let_def)

lemma persona_fold_in_library:
  "fst s \<in> set PERSONA_LIBRARY \<Longrightarrow> set ps \<subseteq> set PERSONA_LIBRARY \<Longrightarrow>
   fst (foldl (personaStep fv) s ps) \<in> set PERSONA_LIBRARY"
proof (induction ps arbitrary: s)
  case Nil
  then show ?case by simp
next
  case (Cons p ps)
  from Cons.prems have "fst (personaStep fv s p) \<in> set PERSONA_LIBRARY"
    by (intro personaStep_in_library) auto
  with Cons.prems show ?case by (simp add: Cons.IH)
qed

lemma PERSONA_LIBRARY_first: "PERSONA_LIBRARY ! 0 \<in> set PERSONA_LIBRARY"
  by (simp add: PERSONA_LIBRARY_def)

lemma assignPersona_in_library: "assignPersona vector \<in> set PERSONA_LIBRARY"
  unfolding assignPersona_def
  by (rule persona_fold_in_library) (simp_all add: PERSONA_LIBRARY_first)

lemma insightStep_persona:
  assumes "\<forall>b \<in> snd ` set acc. \<exists>p \<in> set PERSONA_LIBRARY. TutorAiInsights.persona b = Some p"
  shows "\<forall>b \<in> snd ` set (insightStep tutors matrix model acc vector).
           \<exists>p \<in> set PERSONA_LIBRARY. TutorAiInsights.persona b = Some p"
proof (cases "find (\<lambda>t. tutor_id t = tutorId vector) tutors")
  case None
  then show ?thesis using assms by (simp add: insightStep_def Let_def)
next
  case (Some t)
  obtain b where b: "insightStep tutors matrix model acc vector = AList.update (tutorId vector) b acc"
    and pb: "TutorAiInsights.persona b = Some (assignPersona vector)"
    using Some by (simp add: insightStep_def Let_def buildClusterInsights_def)
  have "set (AList.update (tutorId vector) b acc) \<subseteq> insert (tutorId vector, b) (set acc)"
    by (induction acc) auto
  then show ?thesis
    unfolding b using assms pb assignPersona_in_library[of vector] by fastforce
qed

lemma insights_fold_persona:
  "\<forall>b \<in> snd ` set acc. \<exists>p \<in> set PERSONA_LIBRARY. TutorAiInsights.persona b = Some p \<Longrightarrow>
   \<forall>b \<in> snd ` set (foldl (insightStep tutors matrix model) acc vs).
     \<exists>p \<in> set PERSONA_LIBRARY. TutorAiInsights.persona b = Some p"
proof (induction vs arbitrary: acc)
  case Nil
  then show ?case by simp
next
  case (Cons v vs)
  show ?case
    unfolding foldl_Cons
    by (rule Cons.IH) (rule insightStep_persona[OF Cons.prems])
qed

text \<open>
  C10: for every feature vector the persona classifier returns one of the four fixed
  archetypes, and the persona of every insight bundle that the orchestrator produces
  is present (never null) and is one of them.
\<close>

theorem C10_persona_never_null:
  "assignPersona vector \<in> set PERSONA_LIBRARY \<and>
   length PERSONA_LIBRARY = 4 \<and>
   (\<forall>b \<in> snd ` set (generateAiInsights tutors).
      \<exists>p \<in> set PERSONA_LIBRARY. TutorAiInsights.persona b = Some p)"
proof (intro conjI)
  show "assignPersona vector \<in> set PERSONA_LIBRARY" by (rule assignPersona_in_library)
  show "length PERSONA_LIBRARY = 4" by (simp add: PERSONA_LIBRARY_def)
  show "\<forall>b \<in> snd ` set (generateAiInsights tutors).
      \<exists>p \<in> set PERSONA_LIBRARY. TutorAiInsights.persona b = Some p"
    unfolding generateAiInsights_def Let_def
    by (rule insights_fold_persona) simp
qed



section \<open>Properties of the intervention recommender\<close>

lemma rankedCandidates_length: "length (rankedCandidates vector context) \<le> 3"
  by (simp add: rankedCandidates_def Let_def)

lemma rankedCandidates_sorted:
  "sorted_wrt (\<lambda>a b. snd a \<ge> snd b) (rankedCandidates vector context)"
proof -
  let ?scored = "filter (\<lambda>entry. snd entry > 0.05)
      (map (\<lambda>item. (build item vector, match item vector context)) INTERVENTION_LIBRARY)"
  have "sorted (map (\<lambda>entry. - snd entry) (sort_key (\<lambda>entry. - snd entry) ?scored))"
    by (rule sorted_sort_key)
  then have "sorted_wrt (\<lambda>a b. snd a \<ge> snd b) (sort_key (\<lambda>entry. - snd entry) ?scored)"
    by (simp add: sorted_wrt_map)
  then have "sorted_wrt (\<lambda>a b. snd a \<ge> snd b) (take 3 (sort_key (\<lambda>entry. - snd entry) ?scored))"
    by (rule sorted_wrt_take)
  then show ?thesis by (simp add: rankedCandidates_def Let_def)
qed

lemma rankedCandidates_from_library:
  assumes "e \<in> set (rankedCandidates vector context)"
  shows "\<exists>item \<in> set INTERVENTION_LIBRARY.
           e = (build item vector, match item vector context) \<and> match item vector context > 0.05"
proof -
  from assms have "e \<in> set (filter (\<lambda>entry. snd entry > 0.05)
      (map (\<lambda>item. (build item vector, match item vector context)) INTERVENTION_LIBRARY))"
    unfolding rankedCandidates_def Let_def by (auto dest: in_set_takeD)
  then show ?thesis by auto
qed

lemma rankedCandidates_top:
  assumes "item \<in> set INTERVENTION_LIBRARY" "match item vector context > 0.05"
    "(build item vector, match item vector context) \<notin> set (rankedCandidates vector context)"
    "e \<in> set (rankedCandidates vector context)"
  shows "match item vector context \<le> snd e"
proof -
  let ?scored = "filter (\<lambda>entry. snd entry > 0.05)
      (map (\<lambda>item. (build item vector, match item vector context)) INTERVENTION_LIBRARY)"
  let ?sorted = "sort_key (\<lambda>entry. - snd entry) ?scored"
  let ?c = "(build item vector, match item vector context)"
  have srt: "sorted_wrt (\<lambda>a b. snd a \<ge> snd b) (take 3 ?sorted @ drop 3 ?sorted)"
    using sorted_sort_key[of "\<lambda>entry. - snd entry" ?scored] by (simp add: sorted_wrt_map)
  have "?c \<in> set ?scored" using assms(1,2) by auto
  then have "?c \<in> set ?sorted" by simp
  then have "?c \<in> set (take 3 ?sorted) \<union> set (drop 3 ?sorted)"
    by (metis append_take_drop_id set_append)
  moreover have "?c \<notin> set (take 3 ?sorted)"
    using assms(3) by (simp add: rankedCandidates_def Let_def)
  ultimately have d: "?c \<in> set (drop 3 ?sorted)" by simp
  have t: "e \<in> set (take 3 ?sorted)" using assms(4) by (simp add: rankedCandidates_def Let_def)
  from srt t d have "snd e \<ge> snd ?c" unfolding sorted_wrt_append by blast
  then show ?thesis by simp
qed

lemma recommend_nth:
  assumes "i < length (rankedCandidates vector context)"
  shows "recommendInterventions vector context ! i =
         (fst (rankedCandidates vector context ! i))
           \<lparr>effectiveness := min 0.95 (effectiveness (fst (rankedCandidates vector context ! i))
               + real i * 0.05)\<rparr>"
  using assms by (simp add: recommendInterventions_def nth_enumerate_eq)

lemma recommend_length:
  "length (recommendInterventions vector context) = length (rankedCandidates vector context)"
  by (simp add: recommendInterventions_def)

lemma recommend_effectiveness:
  assumes "r \<in> set (recommendInterventions vector context)"
  shows "effectiveness r \<le> 0.95"
proof -
  from assms obtain i where i: "i < length (rankedCandidates vector context)"
    and r: "r = recommendInterventions vector context ! i"
    by (auto simp: in_set_conv_nth recommend_length)
  have "effectiveness r =
        min 0.95 (effectiveness (fst (rankedCandidates vector context ! i)) + real i * 0.05)"
    unfolding r recommend_nth[OF i] by simp
  also have "\<dots> \<le> 0.95" by (rule min.cobounded1)
  finally show ?thesis .
qed

lemma rankedCandidates_count:
  "length (rankedCandidates vector context) =
   min 3 (length (filter (\<lambda>item. match item vector context > 0.05) INTERVENTION_LIBRARY))"
  by (simp add: rankedCandidates_def Let_def filter_map comp_def min.commute)

lemma library_ids:
  "map (\<lambda>item. intervention_id (build item vector)) INTERVENTION_LIBRARY =
   [''first-session-rescue'', ''tech-intervention'', ''scheduling-discipline'',
    ''no-show-mitigation'', ''quality-lift'', ''momentum-boost'']"
  by (simp add: INTERVENTION_LIBRARY_def)

lemma library_ids_distinct:
  "distinct (map (\<lambda>item. intervention_id (build item vector)) INTERVENTION_LIBRARY)"
  unfolding library_ids by simp

lemma kept_ids_distinct:
  "distinct (map (\<lambda>e. intervention_id (fst e))
     (filter (\<lambda>entry. snd entry > 0.05)
        (map (\<lambda>item. (build item vector, match item vector context)) INTERVENTION_LIBRARY)))"
proof -
  have "distinct (map (\<lambda>e. intervention_id (fst e))
          (map (\<lambda>item. (build item vector, match item vector context)) INTERVENTION_LIBRARY))"
    using library_ids_distinct[of vector] by (simp add: comp_def)
  then show ?thesis by (rule distinct_map_filter)
qed

lemma sorted_ids_distinct:
  "distinct (map h xs) \<Longrightarrow> distinct (map h (sort_key f xs))"
proof -
  assume d: "distinct (map h xs)"
  have "mset (map h (sort_key f xs)) = mset (map h xs)" by simp
  from mset_eq_imp_distinct_iff[OF this] d show ?thesis by simp
qed

lemma ranked_ids_distinct:
  "distinct (map (\<lambda>e. intervention_id (fst e)) (rankedCandidates vector context))"
proof -
  let ?kept = "filter (\<lambda>entry. snd entry > 0.05)
        (map (\<lambda>item. (build item vector, match item vector context)) INTERVENTION_LIBRARY)"
  have "distinct (map (\<lambda>e. intervention_id (fst e)) (sort_key (\<lambda>entry. - snd entry) ?kept))"
    by (rule sorted_ids_distinct) (rule kept_ids_distinct)
  then have "distinct (take 3 (map (\<lambda>e. intervention_id (fst e))
                 (sort_key (\<lambda>entry. - snd entry) ?kept)))"
    by (rule distinct_take)
  then show ?thesis by (simp add: rankedCandidates_def Let_def take_map)
qed

lemma recommend_ids:
  "map intervention_id (recommendInterventions vector context) =
   map (\<lambda>e. intervention_id (fst e)) (rankedCandidates vector context)"
  by (rule nth_equalityI) (simp_all add: recommend_length recommend_nth)

lemma recommend_ids_distinct:
  "distinct (map intervention_id (recommendInterventions vector context))"
  unfolding recommend_ids by (rule ranked_ids_distinct)

lemma ranked_prefix_of_stable_sort:
  "\<exists>sorted.
     mset sorted = mset (filter (\<lambda>entry. snd entry > 0.05)
        (map (\<lambda>item. (build item vector, match item vector context)) INTERVENTION_LIBRARY)) \<and>
     sorted_wrt (\<lambda>a b. snd a \<ge> snd b) sorted \<and>
     (\<forall>k. filter (\<lambda>e. snd e = k) sorted =
          filter (\<lambda>e. snd e = k) (filter (\<lambda>entry. snd entry > 0.05)
        (map (\<lambda>item. (build item vector, match item vector context)) INTERVENTION_LIBRARY))) \<and>
     rankedCandidates vector context = take 3 sorted"
proof -
  let ?kept = "filter (\<lambda>entry. snd entry > 0.05)
        (map (\<lambda>item. (build item vector, match item vector context)) INTERVENTION_LIBRARY)"
  let ?sorted = "sort_key (\<lambda>entry. - snd entry) ?kept"
  have 1: "mset ?sorted = mset ?kept" by simp
  have 2: "sorted_wrt (\<lambda>a b. snd a \<ge> snd b) ?sorted"
    using sorted_sort_key[of "\<lambda>entry. - snd entry" ?kept] by (simp add: sorted_wrt_map)
  have 3: "filter (\<lambda>e. snd e = k) ?sorted = filter (\<lambda>e. snd e = k) ?kept" for k
    using sort_key_stable[of "\<lambda>entry. - snd entry" "- k" ?kept] by simp
  have 4: "rankedCandidates vector context = take 3 ?sorted"
    by (simp add: rankedCandidates_def Let_def)
  from 1 2 3 4 show ?thesis by blast
qed

text \<open>
  C7: for every feature vector and context, the recommender keeps the candidates whose
  match score exceeds 0.05, sorts them by falling score (a stable sort: candidates of
  equal score keep the order of the library) and returns the first three of the sorted
  list, or all of it when it is shorter; the pick at rank \<open>i\<close> shows its base
  effectiveness plus \<open>0.05 * i\<close>, capped at 0.95.  So the result has at most three
  entries, no intervention occurs twice, and each effectiveness is at most 0.95.
\<close>

theorem C7_recommendations:
  "length (recommendInterventions vector context) \<le> 3 \<and>
   length (recommendInterventions vector context) =
     min 3 (length (filter (\<lambda>item. match item vector context > 0.05) INTERVENTION_LIBRARY)) \<and>
   (\<forall>r \<in> set (recommendInterventions vector context). effectiveness r \<le> 0.95) \<and>
   sorted_wrt (\<lambda>a b. snd a \<ge> snd b) (rankedCandidates vector context) \<and>
   (\<forall>e \<in> set (rankedCandidates vector context).
      \<exists>item \<in> set INTERVENTION_LIBRARY.
        e = (build item vector, match item vector context) \<and> match item vector context > 0.05) \<and>
   (\<forall>item \<in> set INTERVENTION_LIBRARY.
      match item vector context > 0.05 \<and>
      (build item vector, match item vector context) \<notin> set (rankedCandidates vector context) \<longrightarrow>
      (\<forall>e \<in> set (rankedCandidates vector context). match item vector context \<le> snd e)) \<and>
   (\<forall>i < length (rankedCandidates vector context).
      recommendInterventions vector context ! i =
        (fst (rankedCandidates vector context ! i))
          \<lparr>effectiveness :=
             min 0.95 (effectiveness (fst (rankedCandidates vector context ! i)) + real i * 0.05)\<rparr>) \<and>
   (\<exists>sorted.
      mset sorted = mset (filter (\<lambda>entry. snd entry > 0.05)
         (map (\<lambda>item. (build item vector, match item vector context)) INTERVENTION_LIBRARY)) \<and>
      sorted_wrt (\<lambda>a b. snd a \<ge> snd b) sorted \<and>
      (\<forall>k. filter (\<lambda>e. snd e = k) sorted =
           filter (\<lambda>e. snd e = k) (filter (\<lambda>entry. snd entry > 0.05)
         (map (\<lambda>item. (build item vector, match item vector context)) INTERVENTION_LIBRARY))) \<and>
      rankedCandidates vector context = take 3 sorted) \<and>
   distinct (map intervention_id (recommendInterventions vector context))"
proof (intro conjI)
  show "length (recommendInterventions vector context) \<le> 3"
    unfolding recommend_length by (rule rankedCandidates_length)
  show "length (recommendInterventions vector context) =
     min 3 (length (filter (\<lambda>item. match item vector context > 0.05) INTERVENTION_LIBRARY))"
    unfolding recommend_length by (rule rankedCandidates_count)
  show "\<forall>r \<in> set (recommendInterventions vector context). effectiveness r \<le> 0.95"
    using recommend_effectiveness by blast
  show "sorted_wrt (\<lambda>a b. snd a \<ge> snd b) (rankedCandidates vector context)"
    by (rule rankedCandidates_sorted)
  show "\<forall>e \<in> set (rankedCandidates vector context).
      \<exists>item \<in> set INTERVENTION_LIBRARY.
        e = (build item vector, match item vector context) \<and> match item vector context > 0.05"
    using rankedCandidates_from_library by blast
  show "\<forall>item \<in> set INTERVENTION_LIBRARY.
      match item vector context > 0.05 \<and>
      (build item vector, match item vector context) \<notin> set (rankedCandidates vector context) \<longrightarrow>
      (\<forall>e \<in> set (rankedCandidates vector context). match item vector context \<le> snd e)"
    using rankedCandidates_top by blast
  show "\<forall>i < length (rankedCandidates vector context).
      recommendInterventions vector context ! i =
        (fst (rankedCandidates vector context ! i))
          \<lparr>effectiveness :=
             min 0.95 (effectiveness (fst (rankedCandidates vector context ! i)) + real i * 0.05)\<rparr>"
    using recommend_nth by blast
  show "\<exists>sorted.
      mset sorted = mset (filter (\<lambda>entry. snd entry > 0.05)
         (map (\<lambda>item. (build item vector, match item vector context)) INTERVENTION_LIBRARY)) \<and>
      sorted_wrt (\<lambda>a b. snd a \<ge> snd b) sorted \<and>
      (\<forall>k. filter (\<lambda>e. snd e = k) sorted =
           filter (\<lambda>e. snd e = k) (filter (\<lambda>entry. snd entry > 0.05)
         (map (\<lambda>item. (build item vector, match item vector context)) INTERVENTION_LIBRARY))) \<and>
      rankedCandidates vector context = take 3 sorted"
    by (rule ranked_prefix_of_stable_sort)
  show "distinct (map intervention_id (recommendInterventions vector context))"
    by (rule recommend_ids_distinct)
qed

section \<open>The tutor without sessions\<close>

lemma sessionsByDay_Nil: "sessionsByDay [] = Map.empty"
  by (simp add: sessionsByDay_def)

lemma dailyScores_empty: "dailyScores Map.empty version c ds = replicate (length ds) c"
  by (induction ds) simp_all

lemma half_window_3: "(3::nat) div 2 = 1"
  by simp

lemma window_start: "nat (max 0 (int i - int 1)) = i - 1"
  by arith

lemma smoothTrend_3:
  "smoothTrend tr 3 =
    (if length tr = 0 then []
     else if length tr = 1 then tr
     else map (\<lambda>i. Math_round
                 (sum_list (take (min (length tr) (i + 2) - (i - 1)) (drop (i - 1) tr)) /
                  real (length (take (min (length tr) (i + 2) - (i - 1)) (drop (i - 1) tr)))))
            [0..<length tr])"
  unfolding smoothTrend_def Let_def half_window_3 window_start foldl_plus_sum_list
  by (simp add: numeral_2_eq_2)

lemma smoothTrend_constant:
  assumes "Math_round c = c"
  shows "smoothTrend (replicate n c) 3 = replicate n c"
proof -
  have win: "Math_round
                 (sum_list (take (min n (i + 2) - (i - 1)) (drop (i - 1) (replicate n c))) /
                  real (length (take (min n (i + 2) - (i - 1)) (drop (i - 1) (replicate n c))))) = c"
    if "i < n" for i
  proof -
    let ?k = "min (min n (i + 2) - (i - 1)) (n - (i - 1))"
    have k: "0 < ?k" using that by auto
    have "take (min n (i + 2) - (i - 1)) (drop (i - 1) (replicate n c)) = replicate ?k c"
      by simp
    then show ?thesis using k assms that by (simp add: sum_list_replicate)
  qed
  have "map (\<lambda>i. Math_round
                 (sum_list (take (min n (i + 2) - (i - 1)) (drop (i - 1) (replicate n c))) /
                  real (length (take (min n (i + 2) - (i - 1)) (drop (i - 1) (replicate n c))))))
            [0..<n] = map (\<lambda>i. c) [0..<n]"
    by (rule map_cong[OF refl]) (simp only: set_upt atLeastLessThan_iff win)
  also have "\<dots> = replicate n c" by (simp add: map_replicate_const)
  finally show ?thesis
    by (simp add: smoothTrend_3)
qed

lemma Math_round_of_int: "Math_round (of_int k) = of_int k"
  by (simp add: Math_round_def)


lemma zero_score: "computeScore (computeMetrics []) version = (if version = v1 then 100 else 96)"
  by (simp add: computeMetrics_Nil computeScore_def computeScoreV1_def computeScoreV2_def
      clampScore_def Math_round_def)

lemma zero_trend': "buildTrendForTutor [] ds (if version = v1 then 100 else 96) version =
   replicate (length ds) (if version = v1 then 100 else 96)"
  using smoothTrend_constant[of "if version = v1 then 100 else 96" "length ds"]
    Math_round_of_int[of 100] Math_round_of_int[of 96]
  by (simp add: buildTrendForTutor_def sessionsByDay_Nil dailyScores_empty)

lemma zero_risk:
  "computeChurnRisk (computeMetrics []) (if version = v1 then 100 else 96)
     (replicate n (if version = v1 then 100 else 96)) = 0"
  by (simp add: computeChurnRisk_def computeMetrics_Nil clamp01_def Let_def)

lemma zero_scoreTutor:
  "scoreTutor tid nm subj [] ds version =
    \<lparr>tutor_id = tid, name = nm, subject = subj,
     score = (if version = v1 then 100 else 96),
     trend_7d = replicate (length ds) (if version = v1 then 100 else 96),
     churn_risk = 0,
     kpis = \<lparr>avg_rating = None, dropout_rate = 0, tech_issue_rate = 0, reschedule_rate = 0,
              sessions_count = 0, first_session_avg_rating = None,
              first_session_dropout_rate = 0, first_session_count = 0,
              tutor_initiated_reschedule_rate = 0, no_show_rate = 0\<rparr>\<rparr>"
  unfolding scoreTutor_def Let_def zero_score zero_trend' zero_risk
  by (simp add: computeMetrics_Nil toFixed1_def round_to_def Math_round_def)

lemma velocity_constant: "computeTrendVelocity (replicate n c) = 0"
  by (simp add: computeTrendVelocity_def)

lemma zero_features:
  "features (buildFeatureVector (scoreTutor tid nm subj [] ds version)) =
    [(''dropout_rate'', 0), (''tech_issue_rate'', 0), (''reschedule_rate'', 0),
     (''sessions_count'', 0), (''avg_rating'', 0), (''first_session_avg_rating'', 0),
     (''first_session_dropout_rate'', 0), (''first_session_count'', 0),
     (''tutor_initiated_reschedule_rate'', 0), (''no_show_rate'', 0),
     (''score'', if version = v1 then 100 else 96),
     (''trend_slope'', computeTrendSlope (replicate (length ds) (if version = v1 then 100 else 96))),
     (''trend_variance'',
        computeTrendVariance (replicate (length ds) (if version = v1 then 100 else 96))),
     (''trend_velocity'', 0), (''churn_risk'', 0)]"
  unfolding zero_scoreTutor
  by (simp add: buildFeatureVector_def Let_def safeNumber_def velocity_constant)

lemma zero_matches:
  "map (\<lambda>item. match item (buildFeatureVector (scoreTutor tid nm subj [] ds version)) context)
     INTERVENTION_LIBRARY = [3.5, 0, 0, 0, 4.5, 0]"
  by (simp add: INTERVENTION_LIBRARY_def getOr_def Let_def zero_features)


lemma zero_ranked:
  "map (\<lambda>e. (intervention_id (fst e), effectiveness (fst e), snd e))
     (rankedCandidates (buildFeatureVector (scoreTutor tid nm subj [] ds version)) context) =
   [(''quality-lift'', 0.58, 4.5), (''first-session-rescue'', 0.75, 3.5)]"
  by (simp add: rankedCandidates_def INTERVENTION_LIBRARY_def getOr_def Let_def zero_features)

lemma zero_recommendations:
  "map (\<lambda>r. (intervention_id r, effectiveness r))
     (recommendInterventions (buildFeatureVector (scoreTutor tid nm subj [] ds version)) context) =
   [(''quality-lift'', 0.58), (''first-session-rescue'', 0.8)]"
proof -
  obtain a b where ab: "rankedCandidates (buildFeatureVector (scoreTutor tid nm subj [] ds version)) context = [a, b]"
    and a: "intervention_id (fst a) = ''quality-lift''" "effectiveness (fst a) = 0.58"
    and b: "intervention_id (fst b) = ''first-session-rescue''" "effectiveness (fst b) = 0.75"
    using zero_ranked[of tid nm subj ds version "context"] by auto
  show ?thesis
    by (simp add: recommendInterventions_def ab a b)
qed

section \<open>Evaluations on the example inputs\<close>











text \<open>
  C2: for a tutor with zero sessions the recommender should return the empty list.
  The code returns two recommendations, for every list of trend dates, formula version
  and context: the feature vector holds 0 for both missing ratings, so the defaults of
  5 in the match functions of \<open>quality-lift\<close> and \<open>first-session-rescue\<close> never
  apply.
\<close>

theorem C2_zero_session_recommendations:
  "map (\<lambda>r. (intervention_id r, effectiveness r))
     (recommendInterventions (buildFeatureVector (scoreTutor tid nm subj [] ds version)) context) =
   [(''quality-lift'', 0.58), (''first-session-rescue'', 0.8)]"
  by (rule zero_recommendations)

lemma example_ranked:
  "map (\<lambda>e. (intervention_id (fst e), effectiveness (fst e), snd e))
     (rankedCandidates exampleVector exampleContext) =
   [(''tech-intervention'', 0.68, 2), (''no-show-mitigation'', 0.65, 1),
    (''scheduling-discipline'', 0.62, 0.6)]"
  by (simp add: rankedCandidates_def INTERVENTION_LIBRARY_def getOr_def Let_def
      exampleVector_def exampleContext_def)

lemma example_quality_lift:
  "INTERVENTION_LIBRARY ! 4 \<in> set INTERVENTION_LIBRARY \<and>
   match (INTERVENTION_LIBRARY ! 4) exampleVector exampleContext = 0.5 \<and>
   intervention_id (build (INTERVENTION_LIBRARY ! 4) exampleVector) = ''quality-lift''"
  by (simp add: INTERVENTION_LIBRARY_def getOr_def Let_def exampleVector_def)

text \<open>
  C7 on the example vector: four candidates pass the filter, three are returned in
  the order of their scores, the third shows 0.62 + 0.10, and the candidate left out
  scores below the third.
\<close>

theorem C7_recommendations_witness:
  "length (recommendInterventions exampleVector exampleContext) = 3 \<and>
   map intervention_id (recommendInterventions exampleVector exampleContext) =
     [''tech-intervention'', ''no-show-mitigation'', ''scheduling-discipline''] \<and>
   effectiveness (recommendInterventions exampleVector exampleContext ! 2) = 0.72 \<and>
   effectiveness (recommendInterventions exampleVector exampleContext ! 2) \<le> 0.95 \<and>
   match (INTERVENTION_LIBRARY ! 4) exampleVector exampleContext
     \<le> snd (rankedCandidates exampleVector exampleContext ! 2)"
proof -
  note c7 = C7_recommendations[of exampleVector exampleContext]
  obtain a b c where abc: "rankedCandidates exampleVector exampleContext = [a, b, c]"
    and ids: "intervention_id (fst a) = ''tech-intervention''"
      "intervention_id (fst b) = ''no-show-mitigation''"
      "intervention_id (fst c) = ''scheduling-discipline''"
    and c: "effectiveness (fst c) = 0.62" "snd c = 0.6"
    using example_ranked by auto
  have len: "length (recommendInterventions exampleVector exampleContext) = 3"
    by (simp add: recommend_length abc)
  have idl: "map intervention_id (recommendInterventions exampleVector exampleContext) =
     [''tech-intervention'', ''no-show-mitigation'', ''scheduling-discipline'']"
    by (simp add: recommend_ids abc ids)
  from c7 have nth_all: "\<forall>i < length (rankedCandidates exampleVector exampleContext).
      recommendInterventions exampleVector exampleContext ! i =
        (fst (rankedCandidates exampleVector exampleContext ! i))
          \<lparr>effectiveness :=
             min 0.95 (effectiveness (fst (rankedCandidates exampleVector exampleContext ! i))
               + real i * 0.05)\<rparr>"
    by blast
  have "(2::nat) < length (rankedCandidates exampleVector exampleContext)" by (simp add: abc)
  with nth_all have nth2: "recommendInterventions exampleVector exampleContext ! 2 =
      (fst c)\<lparr>effectiveness := min 0.95 (effectiveness (fst c) + real (2::nat) * 0.05)\<rparr>"
    by (simp add: abc)
  have eff: "effectiveness (recommendInterventions exampleVector exampleContext ! 2) = 0.72"
    unfolding nth2 by (simp add: c)
  have "recommendInterventions exampleVector exampleContext ! 2
          \<in> set (recommendInterventions exampleVector exampleContext)"
    using len by simp
  with c7 have le: "effectiveness (recommendInterventions exampleVector exampleContext ! 2) \<le> 0.95"
    by blast
  let ?q = "INTERVENTION_LIBRARY ! 4"
  have q: "?q \<in> set INTERVENTION_LIBRARY" "match ?q exampleVector exampleContext = 0.5"
    "intervention_id (build ?q exampleVector) = ''quality-lift''"
    using example_quality_lift by simp_all
  have notin: "(build ?q exampleVector, match ?q exampleVector exampleContext)
                 \<notin> set (rankedCandidates exampleVector exampleContext)"
    using q(3) ids by (auto simp: abc)
  have "c \<in> set (rankedCandidates exampleVector exampleContext)" by (simp add: abc)
  moreover have "0.05 < match ?q exampleVector exampleContext"
    unfolding q(2) by simp
  moreover from c7 have "\<forall>item \<in> set INTERVENTION_LIBRARY.
      match item exampleVector exampleContext > 0.05 \<and>
      (build item exampleVector, match item exampleVector exampleContext)
        \<notin> set (rankedCandidates exampleVector exampleContext) \<longrightarrow>
      (\<forall>e \<in> set (rankedCandidates exampleVector exampleContext).
         match item exampleVector exampleContext \<le> snd e)"
    by blast
  ultimately have "match ?q exampleVector exampleContext \<le> snd c"
    using q(1) notin by blast
  then have top: "match ?q exampleVector exampleContext
     \<le> snd (rankedCandidates exampleVector exampleContext ! 2)"
    by (simp add: abc)
  from len idl eff le top show ?thesis by blast
qed

lemma single_tutor_insights:
  "\<exists>b. generateAiInsights [t] = [(tutor_id t, b)]"
  by (simp add: generateAiInsights_def insightStep_def buildFeatureMatrix_def Let_def
      buildFeatureVector_def)

text \<open>C10 on the batch of one tutor without sessions: its bundle has a persona.\<close>

theorem C10_persona_never_null_witness:
  "generateAiInsights [scoreTutor ''t0'' ''Tutor Zero'' ''Math'' [] [''2025-11-07''] v2] \<noteq> [] \<and>
   (\<exists>p \<in> set PERSONA_LIBRARY.
      TutorAiInsights.persona
        (snd (hd (generateAiInsights
                    [scoreTutor ''t0'' ''Tutor Zero'' ''Math'' [] [''2025-11-07''] v2]))) = Some p)"
proof -
  let ?t = "scoreTutor ''t0'' ''Tutor Zero'' ''Math'' [] [''2025-11-07''] v2"
  obtain b where b: "generateAiInsights [?t] = [(tutor_id ?t, b)]"
    using single_tutor_insights by blast
  then have "snd (hd (generateAiInsights [?t])) \<in> snd ` set (generateAiInsights [?t])"
    by simp
  with C10_persona_never_null[of _ "[?t]"] b show ?thesis by (simp del: One_nat_def)
qed

section \<open>Properties of the churn predictor\<close>

lemma initialiseWeights_lookup_gen:
  "map_of (foldl (\<lambda>w key. AList.update key (Some (0::real)) w) w0 ks) k =
   (if k \<in> set ks then Some (Some 0) else map_of w0 k)"
  by (induction ks arbitrary: w0) (simp_all add: update_conv')

lemma numAt_initialiseWeights: "k \<in> set ks \<Longrightarrow> numAt (initialiseWeights ks) k = Some 0"
  by (simp add: numAt_def initialiseWeights_def initialiseWeights_lookup_gen)

lemma initialiseWeights_distinct_gen:
  "distinct ks \<Longrightarrow> set ks \<inter> fst ` set w0 = {} \<Longrightarrow>
   foldl (\<lambda>w key. AList.update key (Some (0::real)) w) w0 ks = w0 @ map (\<lambda>k. (k, Some 0)) ks"
proof (induction ks arbitrary: w0)
  case Nil
  then show ?case by simp
next
  case (Cons k ks)
  have k: "k \<notin> fst ` set w0" using Cons.prems(2) by auto
  then have u: "AList.update k (Some 0) w0 = w0 @ [(k, Some (0::real))]"
    by (induction w0) auto
  have "set ks \<inter> fst ` set (w0 @ [(k, Some (0::real))]) = {}"
    using Cons.prems by auto
  with Cons.prems(1) have
    "foldl (\<lambda>w key. AList.update key (Some (0::real)) w) (w0 @ [(k, Some 0)]) ks =
     (w0 @ [(k, Some 0)]) @ map (\<lambda>k. (k, Some 0)) ks"
    by (intro Cons.IH) simp_all
  then show ?case by (simp add: u)
qed

lemma initialiseWeights_distinct:
  "distinct ks \<Longrightarrow> initialiseWeights ks = map (\<lambda>k. (k, Some 0)) ks"
  using initialiseWeights_distinct_gen[of ks "[]"] by (simp add: initialiseWeights_def)

lemma empty_batch_mean: "featureMean [] k = 0"
  by (simp add: featureMean_def featureValues_def)

lemma empty_batch_stdDev: "featureStdDev [] k = 1"
  by (simp add: featureStdDev_def featureVariance_def featureValues_def)

lemma empty_batch_stats:
  assumes "k \<in> set FEATURE_KEYS"
  shows "map_of (means (computeStatistics [])) k = Some 0"
    and "map_of (stdDevs (computeStatistics [])) k = Some 1"
  using assms
  by (simp_all add: computeStatistics_def means_fold_lookup stdDevs_fold_lookup
      empty_batch_mean empty_batch_stdDev)

lemma zero_model_step:
  assumes "numAt w k = Some 0" "map_of ms k = Some m" "map_of sds k = Some s"
  shows "nan2 (+) (Some 0)
           (nan2 (*) (numAt w k)
              (normaliseFeature (getOr (features vector) k 0) (map_of ms k) (map_of sds k))) = Some 0"
  using assms by (simp add: nan2_def normaliseFeature_def)

lemma zero_model_sum:
  assumes "\<forall>k \<in> set ks. numAt w k = Some 0 \<and> (\<exists>m. map_of ms k = Some m) \<and> (\<exists>s. map_of sds k = Some s)"
  shows "linearSum vector w (Some 0) ms sds ks = Some 0"
  unfolding linearSum_def Let_def using assms
proof (induction ks)
  case Nil
  then show ?case by simp
next
  case (Cons k ks)
  then obtain m s where "numAt w k = Some 0" "map_of ms k = Some m" "map_of sds k = Some s"
    by auto
  then have "nan2 (+) (Some 0)
           (nan2 (*) (numAt w k)
              (normaliseFeature (getOr (features vector) k 0) (map_of ms k) (map_of sds k))) = Some 0"
    by (rule zero_model_step)
  with Cons show ?case by simp
qed

lemma sigmoid_0: "sigmoid 0 = 1 / 2"
  by (simp add: sigmoid_def)

lemma zero_tutor_model:
  "trainChurnModel (buildFeatureMatrix []) opts =
    \<lparr>weights = map (\<lambda>k. (k, Some 0)) FEATURE_KEYS, bias = Some 0, featureKeys = FEATURE_KEYS,
     featureMeans = means (computeStatistics []), featureStds = stdDevs (computeStatistics [])\<rparr>"
  by (simp add: trainChurnModel_def buildFeatureMatrix_def Let_def
      initialiseWeights_distinct[OF FEATURE_KEYS_distinct])

text \<open>
  C8: training on the feature matrix of a batch without tutors returns, for any
  options, the model with bias 0 and weight 0 under every feature key, and that model
  predicts the probability 1/2 for every feature vector.  The functions are total, so
  nothing is thrown.
\<close>

theorem C8_zero_tutor_model:
  "bias (trainChurnModel (buildFeatureMatrix []) opts) = Some 0 \<and>
   weights (trainChurnModel (buildFeatureMatrix []) opts) = map (\<lambda>k. (k, Some 0)) FEATURE_KEYS \<and>
   probability (predictChurn vector (trainChurnModel (buildFeatureMatrix []) opts)) = Some (1 / 2)"
proof -
  have w: "map (\<lambda>k. (k, Some (0::real))) FEATURE_KEYS = initialiseWeights FEATURE_KEYS"
    by (simp add: initialiseWeights_distinct[OF FEATURE_KEYS_distinct])
  have "linearSum vector (map (\<lambda>k. (k, Some 0)) FEATURE_KEYS) (Some 0)
          (means (computeStatistics [])) (stdDevs (computeStatistics [])) FEATURE_KEYS = Some 0"
    unfolding w
    by (rule zero_model_sum) (simp add: numAt_initialiseWeights empty_batch_stats)
  then show ?thesis
    by (simp add: zero_tutor_model predictChurn_def Let_def sigmoid_0)
qed

section \<open>Properties of the trend builder\<close>

lemma sessionsByDay_snoc:
  "sessionsByDay (xs @ [x]) =
    (case sessionsByDay xs (date x) of
       Some list \<Rightarrow> (sessionsByDay xs)(date x \<mapsto> list @ [x])
     | None \<Rightarrow> (sessionsByDay xs)(date x \<mapsto> [x]))"
  unfolding sessionsByDay_def foldl_append by simp

lemma sessionsByDay_lookup:
  "sessionsByDay sessions d =
    (if filter (\<lambda>s. date s = d) sessions = [] then None
     else Some (filter (\<lambda>s. date s = d) sessions))"
proof (induction sessions rule: rev_induct)
  case Nil
  then show ?case by (simp add: sessionsByDay_def)
next
  case (snoc x xs)
  show ?case
  proof (cases "date x = d")
    case True
    then show ?thesis
      using snoc.IH by (simp add: sessionsByDay_snoc split: option.split)
  next
    case False
    then show ?thesis
      using snoc.IH by (simp add: sessionsByDay_snoc split: option.split)
  qed
qed

lemma dailyScores_length: "length (dailyScores byDay version c ds) = length ds"
  by (induction ds arbitrary: c) (simp_all add: Let_def split: option.split)

lemma smoothTrend_length: "length (smoothTrend tr 3) = length tr"
  by (simp add: smoothTrend_3)

lemma buildTrend_length:
  "length (buildTrendForTutor sessions dates fallbackScore version) = length dates"
  by (simp add: buildTrendForTutor_def smoothTrend_length dailyScores_length)

lemma dailyScores_Cons:
  "dailyScores (sessionsByDay sessions) version c (d # ds) =
    (let x = (if filter (\<lambda>s. date s = d) sessions \<noteq> []
              then computeScore (computeMetrics (filter (\<lambda>s. date s = d) sessions)) version
              else c)
     in x # dailyScores (sessionsByDay sessions) version x ds)"
  by (simp add: sessionsByDay_lookup Let_def)

lemma dailyScores_nth:
  "i < length ds \<Longrightarrow>
   dailyScores (sessionsByDay sessions) version c ds ! i =
    (if filter (\<lambda>s. date s = ds ! i) sessions \<noteq> []
     then computeScore (computeMetrics (filter (\<lambda>s. date s = ds ! i) sessions)) version
     else if i = 0 then c
     else dailyScores (sessionsByDay sessions) version c ds ! (i - 1))"
proof (induction ds arbitrary: c i)
  case Nil
  then show ?case by simp
next
  case (Cons d ds)
  show ?case
  proof (cases i)
    case 0
    then show ?thesis unfolding dailyScores_Cons Let_def by simp
  next
    case (Suc j)
    with Cons.prems have j: "j < length ds" by simp
    let ?x = "if filter (\<lambda>s. date s = d) sessions \<noteq> []
              then computeScore (computeMetrics (filter (\<lambda>s. date s = d) sessions)) version
              else c"
    have step: "dailyScores (sessionsByDay sessions) version c (d # ds) =
                ?x # dailyScores (sessionsByDay sessions) version ?x ds"
      unfolding dailyScores_Cons Let_def by simp
    show ?thesis
    proof (cases j)
      case 0
      with Suc show ?thesis
        unfolding step using Cons.IH[OF j, of ?x] by simp
    next
      case (Suc j')
      with \<open>i = Suc j\<close> show ?thesis
        unfolding step using Cons.IH[OF j, of ?x] by simp
    qed
  qed
qed

lemma raw_is_spec:
  "i < length dates \<Longrightarrow>
   dailyScores (sessionsByDay sessions) version (computeScore (computeMetrics sessions) version) dates ! i
   = spec_raw_day sessions version dates i"
proof (induction i)
  case 0
  then show ?case by (subst dailyScores_nth) (simp_all add: Let_def)
next
  case (Suc i)
  then have "i < length dates" by simp
  from Suc.IH[OF this] Suc.prems show ?case
    by (subst dailyScores_nth) (simp_all add: Let_def)
qed

lemma spec_raw_day_int: "\<exists>k::int. spec_raw_day sessions version dates i = of_int k"
proof (induction i)
  case 0
  show ?case using computeScore_int[of _ version] by (simp add: Let_def) blast
next
  case (Suc i)
  then show ?case using computeScore_int[of _ version] by (simp add: Let_def) blast
qed

lemma slice_as_map:
  "e \<le> length xs \<Longrightarrow> take (e - s) (drop s xs) = map ((!) xs) [s..<e]"
  by (rule nth_equalityI) auto

lemma window_as_map:
  assumes "i < length tr"
  shows "take (min (length tr) (i + 2) - (i - 1)) (drop (i - 1) tr) =
         map ((!) tr) [i - 1 ..< min (length tr) (i + 2)]"
  by (rule slice_as_map) simp

lemma smooth_is_spec:
  assumes len: "length raw = length dates"
    and raw: "\<And>i. i < length dates \<Longrightarrow> raw ! i = spec_raw_day sessions version dates i"
  shows "smoothTrend raw 3 =
    map (\<lambda>i. let window = map (spec_raw_day sessions version dates)
                               [i - 1 ..< min (length dates) (i + 2)]
              in Math_round (sum_list window / real (length window)))
        [0..<length dates]"
proof -
  consider "length dates = 0" | "length dates = 1" | "2 \<le> length dates" by linarith
  then show ?thesis
  proof cases
    case 1
    with len show ?thesis by (simp add: smoothTrend_3)
  next
    case 2
    with len obtain x where x: "raw = [x]" by (cases raw) auto
    from raw[of 0] 2 x have x0: "x = spec_raw_day sessions version dates 0" by simp
    obtain k :: int where k: "spec_raw_day sessions version dates 0 = of_int k"
      using spec_raw_day_int by blast
    have "Math_round (spec_raw_day sessions version dates 0) = spec_raw_day sessions version dates 0"
      unfolding k by (rule Math_round_of_int)
    with 2 x x0 show ?thesis by (simp add: smoothTrend_3 Let_def)
  next
    case 3
    have win: "take (min (length raw) (i + 2) - (i - 1)) (drop (i - 1) raw) =
               map (spec_raw_day sessions version dates) [i - 1 ..< min (length dates) (i + 2)]"
      if "i < length dates" for i
    proof -
      have "take (min (length raw) (i + 2) - (i - 1)) (drop (i - 1) raw) =
            map ((!) raw) [i - 1 ..< min (length raw) (i + 2)]"
        using that len by (intro window_as_map) simp
      also have "\<dots> = map (spec_raw_day sessions version dates) [i - 1 ..< min (length dates) (i + 2)]"
        unfolding len by (rule map_cong[OF refl]) (simp add: raw)
      finally show ?thesis .
    qed
    have "smoothTrend raw 3 =
          map (\<lambda>i. Math_round
                 (sum_list (take (min (length raw) (i + 2) - (i - 1)) (drop (i - 1) raw)) /
                  real (length (take (min (length raw) (i + 2) - (i - 1)) (drop (i - 1) raw)))))
            [0..<length raw]"
      using 3 len by (simp add: smoothTrend_3)
    also have "\<dots> = map (\<lambda>i. let window = map (spec_raw_day sessions version dates)
                               [i - 1 ..< min (length dates) (i + 2)]
              in Math_round (sum_list window / real (length window)))
        [0..<length dates]"
      unfolding len Let_def
      by (rule map_cong[OF refl]) (simp only: set_upt atLeastLessThan_iff win[unfolded len])
    finally show ?thesis .
  qed
qed

lemma buildTrend_is_spec:
  "buildTrendForTutor sessions dates (computeScore (computeMetrics sessions) version) version =
   spec_trend sessions version dates"
  unfolding buildTrendForTutor_def spec_trend_def
  by (rule smooth_is_spec) (simp_all add: dailyScores_length raw_is_spec)

lemma spec_trend_int: "x \<in> set (spec_trend sessions version dates) \<Longrightarrow> \<exists>k::int. x = of_int k"
  by (auto simp: spec_trend_def Let_def Math_round_def)

text \<open>
  C5: for every list of sessions and every list of \<open>N\<close> dates the trend builder
  returns exactly \<open>N\<close> values, whatever the fallback.  Seeded with the tutor's
  overall score it returns the trend of the specification (a day with sessions scored in
  isolation, a gap day carrying the previous value forward, then the rounded mean over
  the clipped window of three), and every value is an integer.
\<close>

theorem C5_trend_builder:
  "length (buildTrendForTutor sessions dates fallbackScore version) = length dates \<and>
   buildTrendForTutor sessions dates (computeScore (computeMetrics sessions) version) version =
     spec_trend sessions version dates \<and>
   (\<forall>x \<in> set (buildTrendForTutor sessions dates
                  (computeScore (computeMetrics sessions) version) version).
      \<exists>k::int. x = of_int k)"
  using buildTrend_length[of sessions dates fallbackScore version]
    buildTrend_is_spec[of sessions dates version] spec_trend_int[of _ sessions version dates]
  by auto


lemma example_day_filters:
  "filter (\<lambda>s. date s = ''2025-11-05'') trendSessions = []"
  "filter (\<lambda>s. date s = ''2025-11-06'') trendSessions =
     [(exampleSession ''s1'' ''t1'' completed (Some 5))\<lparr>date := ''2025-11-06''\<rparr>]"
  "filter (\<lambda>s. date s = ''2025-11-07'') trendSessions = [exampleSession ''s2'' ''t1'' dropout None]"
  by (simp_all add: trendSessions_def exampleSession_def)

lemma example_scores:
  "computeScore (computeMetrics trendSessions) v2 = 81"
  "computeScore (computeMetrics
     [(exampleSession ''s1'' ''t1'' completed (Some 5))\<lparr>date := ''2025-11-06''\<rparr>]) v2 = 96"
  "computeScore (computeMetrics [exampleSession ''s2'' ''t1'' dropout None]) v2 = 66"
  by (simp_all add: trendSessions_def exampleSession_def computeMetrics_def tally_session_def
      tally0_def Let_def computeScore_def computeScoreV2_def clampScore_def Math_round_def)

lemma example_raw:
  "dailyScores (sessionsByDay trendSessions) v2 81 trendDates = [81, 96, 66]"
  unfolding trendDates_def dailyScores_Cons Let_def example_day_filters example_scores
  by simp

lemma example_trend:
  "buildTrendForTutor trendSessions trendDates (computeScore (computeMetrics trendSessions) v2) v2 =
   [89, 81, 81]"
  unfolding example_scores buildTrendForTutor_def example_raw
  by (simp add: smoothTrend_3 upt_rec Math_round_def)

lemma example_spec_raw:
  "spec_raw_day trendSessions v2 trendDates 0 = 81"
  "spec_raw_day trendSessions v2 trendDates (Suc 0) = 96"
  "spec_raw_day trendSessions v2 trendDates (Suc (Suc 0)) = 66"
  by (simp_all add: trendDates_def example_day_filters example_scores)

lemma example_spec_trend: "spec_trend trendSessions v2 trendDates = [89, 81, 81]"
proof -
  have l: "length trendDates = 3" by (simp add: trendDates_def)
  have u: "[0..<3] = [0, Suc 0, Suc (Suc 0)]" "[0..<2] = [0, Suc 0]"
    "[Suc 0..<3] = [Suc 0, Suc (Suc 0)]"
    by (simp_all add: upt_rec)
  have w: "map (\<lambda>i. [i - 1 ..< min 3 (i + 2)]) [0, Suc 0, Suc (Suc 0)] =
           [[0, Suc 0], [0, Suc 0, Suc (Suc 0)], [Suc 0, Suc (Suc 0)]]"
    by (simp add: u)
  have "spec_trend trendSessions v2 trendDates =
        map (\<lambda>ix. Math_round (sum_list (map (spec_raw_day trendSessions v2 trendDates) ix) /
                     real (length ix)))
          (map (\<lambda>i. [i - 1 ..< min 3 (i + 2)]) [0, Suc 0, Suc (Suc 0)])"
    unfolding spec_trend_def l Let_def u by (simp del: spec_raw_day.simps)
  also have "\<dots> = [89, 81, 81]"
    unfolding w by (simp del: spec_raw_day.simps add: example_spec_raw Math_round_def)
  finally show ?thesis .
qed

text \<open>
  C5 on the example: the overall score is 81, the raw days are 81, 96 and 66, and the
  smoothed trend is 89, 81, 81.
\<close>

theorem C5_trend_builder_witness:
  "buildTrendForTutor trendSessions trendDates (computeScore (computeMetrics trendSessions) v2) v2 =
     [89, 81, 81] \<and>
   length (buildTrendForTutor trendSessions trendDates 81 v2) = 3 \<and>
   (\<exists>k::int. hd (buildTrendForTutor trendSessions trendDates
                  (computeScore (computeMetrics trendSessions) v2) v2) = of_int k)"
proof -
  note c5 = C5_trend_builder[of trendSessions trendDates 81 v2]
  from c5 have eq: "buildTrendForTutor trendSessions trendDates
      (computeScore (computeMetrics trendSessions) v2) v2 = [89, 81, 81]"
    by (simp only: example_spec_trend)
  from c5 have len: "length (buildTrendForTutor trendSessions trendDates 81 v2) = 3"
    by (simp add: trendDates_def)
  have "hd (buildTrendForTutor trendSessions trendDates
      (computeScore (computeMetrics trendSessions) v2) v2)
    \<in> set (buildTrendForTutor trendSessions trendDates
      (computeScore (computeMetrics trendSessions) v2) v2)"
    unfolding eq by simp
  with c5 have "\<exists>k::int. hd (buildTrendForTutor trendSessions trendDates
                  (computeScore (computeMetrics trendSessions) v2) v2) = of_int k"
    by blast
  with eq len show ?thesis by blast
qed

end
